theory Spec2Isabelle
  imports
    Main
    "HOL-Library.Word"
    "HOL-Library.FSet"
    "HOL-Library.Char_ord"
    "HOL-Library.List_Lexorder"
    "HOL-Library.Product_Lexorder"
begin

unbundle bit_operations_syntax

section \<open>The firewall daemon's rule orchestrator (iptables.cc)\<close>

text \<open>
  A shallow embedding of \<^verbatim>\<open>firewalld::IpTables\<close>. The object's members are the fields
  of a record; every method takes the object and returns its result together with the
  updated object. The external tools (\<^verbatim>\<open>iptables\<close>, \<^verbatim>\<open>ip6tables\<close>, \<^verbatim>\<open>ip\<close>)
  are an oracle that answers each command from the commands run before it, and the
  record logs every command handed to the oracle, oldest first.
\<close>

subsection \<open>Constants and enumerations\<close>

datatype ProtocolEnum = kProtocolTcp | kProtocolUdp

datatype IPVersionEnum = kIPv4 | kIPv6

type_synonym Hole = "16 word \<times> string"

text \<open>
  A command as it reaches the operating system: either through minijail (the user that
  root is dropped to, the capability mask, the argument vector) or through
  \<^verbatim>\<open>brillo::ProcessImpl\<close> (the argument vector).
\<close>

datatype command =
  Minijail "string option" "64 word" "string list"
| Process "string list"

text \<open>
  The environment: the build flavour (\<^verbatim>\<open>__ANDROID__\<close> defined or not), what
  \<^verbatim>\<open>Minijail::RunSyncAndDestroy\<close> answers (whether the program ran, and its status) and
  what \<^verbatim>\<open>ProcessImpl::Run\<close> answers, each from the commands run so far.
\<close>

record world =
  android :: bool
  RunSyncAndDestroy :: "command list \<Rightarrow> command \<Rightarrow> bool \<times> int"
  ProcessRun :: "command list \<Rightarrow> command \<Rightarrow> int"

definition kIpTablesPath :: "world \<Rightarrow> string" where
  "kIpTablesPath w = (if android w then ''/system/bin/iptables'' else ''/sbin/iptables'')"

definition kIp6TablesPath :: "world \<Rightarrow> string" where
  "kIp6TablesPath w = (if android w then ''/system/bin/ip6tables'' else ''/sbin/ip6tables'')"

definition kIpPath :: "world \<Rightarrow> string" where
  "kIpPath w = (if android w then ''/system/bin/ip'' else ''/bin/ip'')"

definition kUnprivilegedUser :: string where
  "kUnprivilegedUser = ''nobody''"

text \<open>\<^verbatim>\<open>CAP_TO_MASK\<close>, \<^verbatim>\<open>CAP_NET_ADMIN\<close> and \<^verbatim>\<open>CAP_NET_RAW\<close> of linux/capability.h.\<close>

definition CAP_TO_MASK :: "nat \<Rightarrow> 64 word" where
  "CAP_TO_MASK x = push_bit (x mod 32) 1"

definition CAP_NET_ADMIN :: nat where
  "CAP_NET_ADMIN = 12"

definition CAP_NET_RAW :: nat where
  "CAP_NET_RAW = 13"

definition kIpTablesCapMask :: "64 word" where
  "kIpTablesCapMask = CAP_TO_MASK CAP_NET_ADMIN OR CAP_TO_MASK CAP_NET_RAW"

definition kInterfaceNameSize :: nat where
  "kInterfaceNameSize = 16"

definition kMarkForUserTraffic :: string where
  "kMarkForUserTraffic = ''1''"

definition kTableIdForUserTraffic :: string where
  "kTableIdForUserTraffic = ''1''"

subsection \<open>Library functions the code calls\<close>

text \<open>\<^verbatim>\<open>std::isalnum\<close> in the "C" locale: the ASCII digits and letters.\<close>

definition isalnum :: "char \<Rightarrow> bool" where
  "isalnum c =
     (let n = (of_char c :: nat)
      in (48 \<le> n \<and> n \<le> 57) \<or> (65 \<le> n \<and> n \<le> 90) \<or> (97 \<le> n \<and> n \<le> 122))"

text \<open>\<^verbatim>\<open>base::StartsWith\<close> and \<^verbatim>\<open>base::EndsWith\<close>, case sensitive.\<close>

definition StartsWith :: "string \<Rightarrow> string \<Rightarrow> bool" where
  "StartsWith str search_for =
     (if length search_for > length str then False
      else take (length search_for) str = search_for)"

definition EndsWith :: "string \<Rightarrow> string \<Rightarrow> bool" where
  "EndsWith str search_for =
     (if length search_for > length str then False
      else drop (length str - length search_for) str = search_for)"

text \<open>\<^verbatim>\<open>std::to_string\<close> on a non-negative integer: its decimal digits.\<close>

fun to_string :: "nat \<Rightarrow> string" where
  "to_string n =
     (if n < 10 then [char_of (48 + n)]
      else to_string (n div 10) @ [char_of (48 + n mod 10)])"

declare to_string.simps [simp del]

subsection \<open>Interface names\<close>

text \<open>The loop over the characters of the name, returning at the first bad one.\<close>

fun only_permitted_chars :: "string \<Rightarrow> bool" where
  "only_permitted_chars [] = True"
| "only_permitted_chars (c # cs) =
     (if \<not> isalnum c \<and> c \<noteq> CHR ''-'' \<and> c \<noteq> CHR ''.'' then False
      else only_permitted_chars cs)"

definition IsValidInterfaceName :: "string \<Rightarrow> bool" where
  "IsValidInterfaceName iface =
     (if length iface \<ge> kInterfaceNameSize then False
      else if StartsWith iface ''-'' \<or> EndsWith iface ''-'' \<or>
              StartsWith iface ''.'' \<or> EndsWith iface ''.'' then False
      else only_permitted_chars iface)"

subsection \<open>The object\<close>

text \<open>
  The members \<^verbatim>\<open>tcp_holes_\<close>, \<^verbatim>\<open>udp_holes_\<close> and \<^verbatim>\<open>ip6_enabled_\<close>, named
  without the trailing underscore, and the log of the commands issued so far.
\<close>

record IpTables =
  tcp_holes :: "Hole fset"
  udp_holes :: "Hole fset"
  ip6_enabled :: bool
  issued :: "command list"

text \<open>
  The constructor. The member's default initialiser is in the header; on Android the
  constructor overwrites it with false.
\<close>

definition IpTables_new :: "world \<Rightarrow> bool \<Rightarrow> IpTables" where
  "IpTables_new w header_default =
     \<lparr>tcp_holes = {||}, udp_holes = {||},
      ip6_enabled = (if android w then False else header_default),
      issued = []\<rparr>"

text \<open>
  The \<^verbatim>\<open>std::set<Hole>* holes\<close> argument of \<^verbatim>\<open>PunchHole\<close> and \<^verbatim>\<open>PlugHole\<close> is the
  address of one of the two members.
\<close>

datatype holes_ptr = TcpHoles | UdpHoles

fun deref :: "holes_ptr \<Rightarrow> IpTables \<Rightarrow> Hole fset" where
  "deref TcpHoles s = tcp_holes s"
| "deref UdpHoles s = udp_holes s"

fun store :: "holes_ptr \<Rightarrow> Hole fset \<Rightarrow> IpTables \<Rightarrow> IpTables" where
  "store TcpHoles hs s = s\<lparr>tcp_holes := hs\<rparr>"
| "store UdpHoles hs s = s\<lparr>udp_holes := hs\<rparr>"

subsection \<open>Running commands\<close>

definition jailed :: "world \<Rightarrow> string list \<Rightarrow> 64 word \<Rightarrow> command" where
  "jailed w argv capmask =
     Minijail (if android w then None else Some kUnprivilegedUser) capmask argv"

definition ExecvNonRoot :: "world \<Rightarrow> string list \<Rightarrow> 64 word \<Rightarrow> IpTables \<Rightarrow> int \<times> IpTables" where
  "ExecvNonRoot w argv capmask s =
     (let c = jailed w argv capmask;
          (ran, status) = RunSyncAndDestroy w (issued s) c
      in (if ran then status else - 1, s\<lparr>issued := issued s @ [c]\<rparr>))"

subsection \<open>Accept rules\<close>

definition accept_argv :: "string \<Rightarrow> string \<Rightarrow> ProtocolEnum \<Rightarrow> 16 word \<Rightarrow> string \<Rightarrow> string list" where
  "accept_argv executable_path flag protocol port interface =
     [executable_path, flag, ''INPUT'', ''-p'',
      (if protocol = kProtocolTcp then ''tcp'' else ''udp''),
      ''--dport'', to_string (unat port)]
     @ (if interface \<noteq> [] then [''-i'', interface] else [])
     @ [''-j'', ''ACCEPT'', ''-w'']"

definition AddAcceptRule_argv :: "string \<Rightarrow> ProtocolEnum \<Rightarrow> 16 word \<Rightarrow> string \<Rightarrow> string list" where
  "AddAcceptRule_argv executable_path protocol port interface =
     accept_argv executable_path ''-I'' protocol port interface"

definition DeleteAcceptRule_argv :: "string \<Rightarrow> ProtocolEnum \<Rightarrow> 16 word \<Rightarrow> string \<Rightarrow> string list" where
  "DeleteAcceptRule_argv executable_path protocol port interface =
     accept_argv executable_path ''-D'' protocol port interface"

definition AddAcceptRule ::
  "world \<Rightarrow> string \<Rightarrow> ProtocolEnum \<Rightarrow> 16 word \<Rightarrow> string \<Rightarrow> IpTables \<Rightarrow> bool \<times> IpTables" where
  "AddAcceptRule w executable_path protocol port interface s =
     (let (status, s') =
            ExecvNonRoot w (AddAcceptRule_argv executable_path protocol port interface)
              kIpTablesCapMask s
      in (status = 0, s'))"

definition DeleteAcceptRule ::
  "world \<Rightarrow> string \<Rightarrow> ProtocolEnum \<Rightarrow> 16 word \<Rightarrow> string \<Rightarrow> IpTables \<Rightarrow> bool \<times> IpTables" where
  "DeleteAcceptRule w executable_path protocol port interface s =
     (let (status, s') =
            ExecvNonRoot w (DeleteAcceptRule_argv executable_path protocol port interface)
              kIpTablesCapMask s
      in (status = 0, s'))"

definition AddAcceptRules ::
  "world \<Rightarrow> ProtocolEnum \<Rightarrow> 16 word \<Rightarrow> string \<Rightarrow> IpTables \<Rightarrow> bool \<times> IpTables" where
  "AddAcceptRules w protocol port interface s =
     (let (ok4, s1) = AddAcceptRule w (kIpTablesPath w) protocol port interface s
      in if \<not> ok4 then (False, s1)
         else
           let (ok6, s2) = AddAcceptRule w (kIp6TablesPath w) protocol port interface s1
           in if ok6 then (True, s2\<lparr>ip6_enabled := True\<rparr>)
              else if ip6_enabled s2 then
                let (_, s3) = DeleteAcceptRule w (kIpTablesPath w) protocol port interface s2
                in (False, s3)
              else (True, s2))"

definition DeleteAcceptRules ::
  "world \<Rightarrow> ProtocolEnum \<Rightarrow> 16 word \<Rightarrow> string \<Rightarrow> IpTables \<Rightarrow> bool \<times> IpTables" where
  "DeleteAcceptRules w protocol port interface s =
     (let (ip4_success, s1) = DeleteAcceptRule w (kIpTablesPath w) protocol port interface s;
          (ip6_success, s2) =
            (if \<not> ip6_enabled s1 then (True, s1)
             else DeleteAcceptRule w (kIp6TablesPath w) protocol port interface s1)
      in (ip4_success \<and> ip6_success, s2))"

subsection \<open>Holes\<close>

definition PunchHole ::
  "world \<Rightarrow> 16 word \<Rightarrow> string \<Rightarrow> holes_ptr \<Rightarrow> ProtocolEnum \<Rightarrow> IpTables \<Rightarrow> bool \<times> IpTables" where
  "PunchHole w port interface holes protocol s =
     (if port = 0 then (False, s)
      else if \<not> IsValidInterfaceName interface then (False, s)
      else
        let hole = (port, interface)
        in if hole |\<in>| deref holes s then (True, s)
           else
             let (ok, s1) = AddAcceptRules w protocol port interface s
             in if \<not> ok then (False, s1)
                else (True, store holes (finsert hole (deref holes s1)) s1))"

definition PlugHole ::
  "world \<Rightarrow> 16 word \<Rightarrow> string \<Rightarrow> holes_ptr \<Rightarrow> ProtocolEnum \<Rightarrow> IpTables \<Rightarrow> bool \<times> IpTables" where
  "PlugHole w port interface holes protocol s =
     (if port = 0 then (False, s)
      else
        let hole = (port, interface)
        in if hole |\<notin>| deref holes s then (False, s)
           else
             let (ok, s1) = DeleteAcceptRules w protocol port interface s
             in if \<not> ok then (False, s1)
                else (True, store holes (deref holes s1 |-| {|hole|}) s1))"

definition PunchTcpHole :: "world \<Rightarrow> 16 word \<Rightarrow> string \<Rightarrow> IpTables \<Rightarrow> bool \<times> IpTables" where
  "PunchTcpHole w in_port in_interface s = PunchHole w in_port in_interface TcpHoles kProtocolTcp s"

definition PunchUdpHole :: "world \<Rightarrow> 16 word \<Rightarrow> string \<Rightarrow> IpTables \<Rightarrow> bool \<times> IpTables" where
  "PunchUdpHole w in_port in_interface s = PunchHole w in_port in_interface UdpHoles kProtocolUdp s"

definition PlugTcpHole :: "world \<Rightarrow> 16 word \<Rightarrow> string \<Rightarrow> IpTables \<Rightarrow> bool \<times> IpTables" where
  "PlugTcpHole w in_port in_interface s = PlugHole w in_port in_interface TcpHoles kProtocolTcp s"

definition PlugUdpHole :: "world \<Rightarrow> 16 word \<Rightarrow> string \<Rightarrow> IpTables \<Rightarrow> bool \<times> IpTables" where
  "PlugUdpHole w in_port in_interface s = PlugHole w in_port in_interface UdpHoles kProtocolUdp s"

text \<open>
  The loops of \<^verbatim>\<open>PlugAllHoles\<close> walk a copy of the set in its order (port first, then
  interface) and drop the result of each \<^verbatim>\<open>PlugHole\<close>.
\<close>

fun plug_each :: "world \<Rightarrow> Hole list \<Rightarrow> holes_ptr \<Rightarrow> ProtocolEnum \<Rightarrow> IpTables \<Rightarrow> IpTables" where
  "plug_each w [] holes protocol s = s"
| "plug_each w (hole # rest) holes protocol s =
     plug_each w rest holes protocol (snd (PlugHole w (fst hole) (snd hole) holes protocol s))"

text \<open>
  A failed \<^verbatim>\<open>CHECK\<close> ends the process with its message. The object is gone then;
  the commands issued up to that moment have happened and stay with the message.
\<close>

datatype fatal = CheckFailed string "command list"

definition PlugAllHoles :: "world \<Rightarrow> IpTables \<Rightarrow> fatal + IpTables" where
  "PlugAllHoles w s =
     (let holes = tcp_holes s;
          s1 = plug_each w (sorted_list_of_fset holes) TcpHoles kProtocolTcp s;
          holes = udp_holes s1;
          s2 = plug_each w (sorted_list_of_fset holes) UdpHoles kProtocolUdp s1
      in if \<not> (fcard (tcp_holes s2) = 0)
         then Inl (CheckFailed ''Failed to plug all TCP holes.'' (issued s2))
         else if \<not> (fcard (udp_holes s2) = 0)
         then Inl (CheckFailed ''Failed to plug all UDP holes.'' (issued s2))
         else Inr s2)"

subsection \<open>VPN rules\<close>

definition ApplyMasquerade_argv :: "string \<Rightarrow> string \<Rightarrow> bool \<Rightarrow> string list" where
  "ApplyMasquerade_argv executable_path interface add =
     [executable_path, ''-t'', ''nat'', (if add then ''-A'' else ''-D''), ''POSTROUTING'',
      ''-o'', interface, ''-j'', ''MASQUERADE'']"

definition ApplyMasquerade :: "world \<Rightarrow> string \<Rightarrow> string \<Rightarrow> bool \<Rightarrow> IpTables \<Rightarrow> bool \<times> IpTables" where
  "ApplyMasquerade w executable_path interface add s =
     (let (status, s') =
            ExecvNonRoot w (ApplyMasquerade_argv executable_path interface add) kIpTablesCapMask s
      in (status = 0, s'))"

definition ApplyMarkForUserTraffic_argv :: "string \<Rightarrow> string \<Rightarrow> bool \<Rightarrow> string list" where
  "ApplyMarkForUserTraffic_argv executable_path user_name add =
     [executable_path, ''-t'', ''mangle'', (if add then ''-A'' else ''-D''), ''OUTPUT'',
      ''-m'', ''owner'', ''--uid-owner'', user_name, ''-j'', ''MARK'', ''--set-mark'',
      kMarkForUserTraffic]"

definition ApplyMarkForUserTraffic ::
  "world \<Rightarrow> string \<Rightarrow> string \<Rightarrow> bool \<Rightarrow> IpTables \<Rightarrow> bool \<times> IpTables" where
  "ApplyMarkForUserTraffic w executable_path user_name add s =
     (let (status, s') =
            ExecvNonRoot w (ApplyMarkForUserTraffic_argv executable_path user_name add)
              kIpTablesCapMask s
      in (status = 0, s'))"

definition ApplyRuleForUserTraffic_argv :: "world \<Rightarrow> IPVersionEnum \<Rightarrow> bool \<Rightarrow> string list" where
  "ApplyRuleForUserTraffic_argv w ip_version add =
     [kIpPath w] @ (if ip_version = kIPv6 then [''-6''] else [])
     @ [''rule'', (if add then ''add'' else ''delete''), ''fwmark'', kMarkForUserTraffic,
        ''table'', kTableIdForUserTraffic]"

definition ApplyRuleForUserTraffic ::
  "world \<Rightarrow> IPVersionEnum \<Rightarrow> bool \<Rightarrow> IpTables \<Rightarrow> bool \<times> IpTables" where
  "ApplyRuleForUserTraffic w ip_version add s =
     (let ip = Process (ApplyRuleForUserTraffic_argv w ip_version add)
      in (ProcessRun w (issued s) ip = 0, s\<lparr>issued := issued s @ [ip]\<rparr>))"

definition ApplyMasquerade46 :: "world \<Rightarrow> string \<Rightarrow> bool \<Rightarrow> IpTables \<Rightarrow> bool \<times> IpTables" where
  "ApplyMasquerade46 w interface add s =
     (let return_value = True;
          (ok4, s1) = ApplyMasquerade w (kIpTablesPath w) interface add s
      in if \<not> ok4 \<and> add then (False, s1)
         else
           let return_value = (if \<not> ok4 then False else return_value);
               (ok6, s2) = ApplyMasquerade w (kIp6TablesPath w) interface add s1;
               return_value = (if \<not> ok6 then False else return_value)
           in (return_value, s2))"

definition ApplyMarkForUserTraffic46 :: "world \<Rightarrow> string \<Rightarrow> bool \<Rightarrow> IpTables \<Rightarrow> bool \<times> IpTables" where
  "ApplyMarkForUserTraffic46 w username add s =
     (let return_value = True;
          (ok4, s1) = ApplyMarkForUserTraffic w (kIpTablesPath w) username add s
      in if \<not> ok4 \<and> add then (False, s1)
         else
           let return_value = (if \<not> ok4 then False else return_value);
               (ok6, s2) = ApplyMarkForUserTraffic w (kIp6TablesPath w) username add s1;
               return_value = (if \<not> ok6 then False else return_value)
           in (return_value, s2))"

text \<open>
  \<^verbatim>\<open>ApplyVpnSetup\<close> and its loop over the user names. The loop carries
  \<^verbatim>\<open>return_value\<close> and \<^verbatim>\<open>added_usernames\<close>; on a failed add it calls
  \<^verbatim>\<open>ApplyVpnSetup\<close> again, with \<^verbatim>\<open>add = false\<close>, and returns false.
\<close>

function ApplyVpnSetup ::
    "world \<Rightarrow> string list \<Rightarrow> string \<Rightarrow> bool \<Rightarrow> IpTables \<Rightarrow> bool \<times> IpTables"
  and for_usernames ::
    "world \<Rightarrow> string list \<Rightarrow> string \<Rightarrow> bool \<Rightarrow> bool \<Rightarrow> string list \<Rightarrow> IpTables \<Rightarrow> bool \<times> IpTables"
where
  "ApplyVpnSetup w usernames interface add s =
     (let return_value = True;
          added_usernames = [];
          (ok4, s1) = ApplyRuleForUserTraffic w kIPv4 add s
      in if \<not> ok4 \<and> add then (False, s1)
         else
           let return_value = (if \<not> ok4 then False else return_value);
               (ok6, s2) = ApplyRuleForUserTraffic w kIPv6 add s1
           in if \<not> ok6 \<and> add then
                (False, snd (ApplyVpnSetup w added_usernames interface False s2))
              else
                let return_value = (if \<not> ok6 then False else return_value);
                    (okm, s3) = ApplyMasquerade46 w interface add s2
                in if \<not> okm \<and> add then
                     (False, snd (ApplyVpnSetup w added_usernames interface False s3))
                   else
                     let return_value = (if \<not> okm then False else return_value)
                     in for_usernames w usernames interface add return_value added_usernames s3)"
| "for_usernames w [] interface add return_value added_usernames s = (return_value, s)"
| "for_usernames w (username # rest) interface add return_value added_usernames s =
     (let (ok, s1) = ApplyMarkForUserTraffic46 w username add s
      in if \<not> ok \<and> add then
           (False, snd (ApplyVpnSetup w added_usernames interface False s1))
         else
           let return_value = (if \<not> ok then False else return_value);
               added_usernames = (if add then added_usernames @ [username] else added_usernames)
           in for_usernames w rest interface add return_value added_usernames s1)"
  by pat_completeness auto

termination
  by (relation "measure (\<lambda>x. case x of
         Inl (w, usernames, interface, add, s) \<Rightarrow>
           (if add then 3 + 2 * length usernames else length usernames + 1)
       | Inr (w, usernames, interface, add, return_value, added_usernames, s) \<Rightarrow>
           (if add then length added_usernames + 2 + 2 * length usernames
            else length usernames))")
     (auto split: prod.splits)

declare ApplyVpnSetup.simps [simp del]

declare for_usernames.simps(2) [simp del]

definition RequestVpnSetup :: "world \<Rightarrow> string list \<Rightarrow> string \<Rightarrow> IpTables \<Rightarrow> bool \<times> IpTables" where
  "RequestVpnSetup w usernames interface s = ApplyVpnSetup w usernames interface True s"

definition RemoveVpnSetup :: "world \<Rightarrow> string list \<Rightarrow> string \<Rightarrow> IpTables \<Rightarrow> bool \<times> IpTables" where
  "RemoveVpnSetup w usernames interface s = ApplyVpnSetup w usernames interface False s"

subsection \<open>The public entry points\<close>

text \<open>
  The methods a client of the object can call, and a client that calls a sequence of
  them, one after the other, on the same object.
\<close>

datatype method_call =
  CallPunchTcpHole "16 word" string
| CallPunchUdpHole "16 word" string
| CallPlugTcpHole "16 word" string
| CallPlugUdpHole "16 word" string
| CallRequestVpnSetup "string list" string
| CallRemoveVpnSetup "string list" string

fun invoke :: "world \<Rightarrow> method_call \<Rightarrow> IpTables \<Rightarrow> bool \<times> IpTables" where
  "invoke w (CallPunchTcpHole in_port in_interface) s = PunchTcpHole w in_port in_interface s"
| "invoke w (CallPunchUdpHole in_port in_interface) s = PunchUdpHole w in_port in_interface s"
| "invoke w (CallPlugTcpHole in_port in_interface) s = PlugTcpHole w in_port in_interface s"
| "invoke w (CallPlugUdpHole in_port in_interface) s = PlugUdpHole w in_port in_interface s"
| "invoke w (CallRequestVpnSetup usernames interface) s = RequestVpnSetup w usernames interface s"
| "invoke w (CallRemoveVpnSetup usernames interface) s = RemoveVpnSetup w usernames interface s"

fun invoke_all :: "world \<Rightarrow> method_call list \<Rightarrow> IpTables \<Rightarrow> IpTables" where
  "invoke_all w [] s = s"
| "invoke_all w (c # cs) s = invoke_all w cs (snd (invoke w c s))"

subsection \<open>Vocabulary of the properties\<close>

text \<open>Whether the environment lets a command end with status 0 after a given history.\<close>

fun succeeds :: "world \<Rightarrow> command list \<Rightarrow> command \<Rightarrow> bool" where
  "succeeds w h (Minijail u m argv) =
     (fst (RunSyncAndDestroy w h (Minijail u m argv)) \<and>
      snd (RunSyncAndDestroy w h (Minijail u m argv)) = 0)"
| "succeeds w h (Process argv) = (ProcessRun w h (Process argv) = 0)"

text \<open>The commands of the four rule kinds.\<close>

definition add_accept :: "world \<Rightarrow> string \<Rightarrow> ProtocolEnum \<Rightarrow> 16 word \<Rightarrow> string \<Rightarrow> command" where
  "add_accept w path protocol port interface =
     jailed w (AddAcceptRule_argv path protocol port interface) kIpTablesCapMask"

definition delete_accept :: "world \<Rightarrow> string \<Rightarrow> ProtocolEnum \<Rightarrow> 16 word \<Rightarrow> string \<Rightarrow> command" where
  "delete_accept w path protocol port interface =
     jailed w (DeleteAcceptRule_argv path protocol port interface) kIpTablesCapMask"

definition masquerade :: "world \<Rightarrow> string \<Rightarrow> string \<Rightarrow> bool \<Rightarrow> command" where
  "masquerade w path interface add =
     jailed w (ApplyMasquerade_argv path interface add) kIpTablesCapMask"

definition mark_user :: "world \<Rightarrow> string \<Rightarrow> string \<Rightarrow> bool \<Rightarrow> command" where
  "mark_user w path username add =
     jailed w (ApplyMarkForUserTraffic_argv path username add) kIpTablesCapMask"

definition ip_rule :: "world \<Rightarrow> IPVersionEnum \<Rightarrow> bool \<Rightarrow> command" where
  "ip_rule w ip_version add = Process (ApplyRuleForUserTraffic_argv w ip_version add)"

text \<open>The object after some more commands were issued, nothing else changed.\<close>

definition having_issued :: "IpTables \<Rightarrow> command list \<Rightarrow> IpTables" where
  "having_issued s cs = s\<lparr>issued := issued s @ cs\<rparr>"

text \<open>The commands issued between an earlier and a later state of the object.\<close>

definition issued_since :: "IpTables \<Rightarrow> IpTables \<Rightarrow> command list" where
  "issued_since s s' = drop (length (issued s)) (issued s')"

text \<open>The commands issued when a call of \<^verbatim>\<open>PlugAllHoles\<close> is over, however it ended.\<close>

fun commands_of :: "fatal + IpTables \<Rightarrow> command list" where
  "commands_of (Inl (CheckFailed msg cs)) = cs"
| "commands_of (Inr s) = issued s"

text \<open>
  The validity of an interface name in the words of the specification: shorter than 16
  characters, only alphanumeric characters, hyphens and periods, and neither the first
  nor the last character is a hyphen or a period.
\<close>

definition valid_name_spec :: "string \<Rightarrow> bool" where
  "valid_name_spec iface =
     (length iface < 16 \<and>
      list_all (\<lambda>c. isalnum c \<or> c = CHR ''-'' \<or> c = CHR ''.'') iface \<and>
      (iface = [] \<or>
       (hd iface \<noteq> CHR ''-'' \<and> hd iface \<noteq> CHR ''.'' \<and>
        last iface \<noteq> CHR ''-'' \<and> last iface \<noteq> CHR ''.'')))"

text \<open>
  Environments of the unit tests: every command runs, and ends with status 1 if it is
  in the given list and with status 0 otherwise.
\<close>

definition mock :: "bool \<Rightarrow> command list \<Rightarrow> world" where
  "mock on_android failing =
     \<lparr>android = on_android,
      RunSyncAndDestroy = (\<lambda>h c. (True, if c \<in> set failing then 1 else 0)),
      ProcessRun = (\<lambda>h c. if c \<in> set failing then 1 else 0)\<rparr>"

text \<open>A fresh object on a non-Android build, with the given default of the flag.\<close>

definition fresh :: "bool \<Rightarrow> IpTables" where
  "fresh header_default = IpTables_new (mock False []) header_default"

section \<open>Basic facts\<close>

subsection \<open>What each primitive rule application does\<close>

lemma succeeds_jailed:
  "succeeds w h (jailed w argv m) =
     ((if fst (RunSyncAndDestroy w h (jailed w argv m)) then snd (RunSyncAndDestroy w h (jailed w argv m)) else - 1) = 0)"
  by (simp add: jailed_def)

lemma ExecvNonRoot_eq:
  "ExecvNonRoot w argv m s =
     ((if fst (RunSyncAndDestroy w (issued s) (jailed w argv m))
       then snd (RunSyncAndDestroy w (issued s) (jailed w argv m)) else - 1),
      having_issued s [jailed w argv m])"
  by (simp add: ExecvNonRoot_def having_issued_def Let_def split: prod.splits)

lemma AddAcceptRule_eq:
  "AddAcceptRule w path protocol port interface s =
     (succeeds w (issued s) (add_accept w path protocol port interface),
      having_issued s [add_accept w path protocol port interface])"
  by (simp add: AddAcceptRule_def ExecvNonRoot_eq add_accept_def succeeds_jailed)

lemma DeleteAcceptRule_eq:
  "DeleteAcceptRule w path protocol port interface s =
     (succeeds w (issued s) (delete_accept w path protocol port interface),
      having_issued s [delete_accept w path protocol port interface])"
  by (simp add: DeleteAcceptRule_def ExecvNonRoot_eq delete_accept_def succeeds_jailed)

lemma ApplyMasquerade_eq:
  "ApplyMasquerade w path interface add s =
     (succeeds w (issued s) (masquerade w path interface add),
      having_issued s [masquerade w path interface add])"
  by (simp add: ApplyMasquerade_def ExecvNonRoot_eq masquerade_def succeeds_jailed)

lemma ApplyMarkForUserTraffic_eq:
  "ApplyMarkForUserTraffic w path username add s =
     (succeeds w (issued s) (mark_user w path username add),
      having_issued s [mark_user w path username add])"
  by (simp add: ApplyMarkForUserTraffic_def ExecvNonRoot_eq mark_user_def succeeds_jailed)

lemma ApplyRuleForUserTraffic_eq:
  "ApplyRuleForUserTraffic w ip_version add s =
     (succeeds w (issued s) (ip_rule w ip_version add),
      having_issued s [ip_rule w ip_version add])"
  by (simp add: ApplyRuleForUserTraffic_def ip_rule_def having_issued_def Let_def)

lemma having_issued_simps [simp]:
  "tcp_holes (having_issued s cs) = tcp_holes s"
  "udp_holes (having_issued s cs) = udp_holes s"
  "ip6_enabled (having_issued s cs) = ip6_enabled s"
  "issued (having_issued s cs) = issued s @ cs"
  "having_issued (having_issued s cs) ds = having_issued s (cs @ ds)"
  "having_issued s [] = s"
  by (simp_all add: having_issued_def)

lemma DeleteAcceptRules_eq:
  "DeleteAcceptRules w protocol port interface s =
     (let d4 = delete_accept w (kIpTablesPath w) protocol port interface;
          d6 = delete_accept w (kIp6TablesPath w) protocol port interface
      in if ip6_enabled s
         then (succeeds w (issued s) d4 \<and> succeeds w (issued s @ [d4]) d6, having_issued s [d4, d6])
         else (succeeds w (issued s) d4, having_issued s [d4]))"
  by (simp add: DeleteAcceptRules_def DeleteAcceptRule_eq Let_def)

lemma AddAcceptRules_eq:
  "AddAcceptRules w protocol port interface s =
     (let a4 = add_accept w (kIpTablesPath w) protocol port interface;
          a6 = add_accept w (kIp6TablesPath w) protocol port interface;
          d4 = delete_accept w (kIpTablesPath w) protocol port interface
      in if \<not> succeeds w (issued s) a4 then (False, having_issued s [a4])
         else if succeeds w (issued s @ [a4]) a6
           then (True, (having_issued s [a4, a6])\<lparr>ip6_enabled := True\<rparr>)
         else if ip6_enabled s then (False, having_issued s [a4, a6, d4])
         else (True, having_issued s [a4, a6]))"
  by (simp add: AddAcceptRules_def AddAcceptRule_eq DeleteAcceptRule_eq Let_def)

lemma ApplyMasquerade46_eq:
  "ApplyMasquerade46 w interface add s =
     (let m4 = masquerade w (kIpTablesPath w) interface add;
          m6 = masquerade w (kIp6TablesPath w) interface add
      in if add \<and> \<not> succeeds w (issued s) m4 then (False, having_issued s [m4])
         else (succeeds w (issued s) m4 \<and> succeeds w (issued s @ [m4]) m6,
               having_issued s [m4, m6]))"
  by (cases add) (auto simp add: ApplyMasquerade46_def ApplyMasquerade_eq Let_def)

lemma ApplyMarkForUserTraffic46_eq:
  "ApplyMarkForUserTraffic46 w username add s =
     (let k4 = mark_user w (kIpTablesPath w) username add;
          k6 = mark_user w (kIp6TablesPath w) username add
      in if add \<and> \<not> succeeds w (issued s) k4 then (False, having_issued s [k4])
         else (succeeds w (issued s) k4 \<and> succeeds w (issued s @ [k4]) k6,
               having_issued s [k4, k6]))"
  by (cases add) (auto simp add: ApplyMarkForUserTraffic46_def ApplyMarkForUserTraffic_eq Let_def)

subsection \<open>One unfolding of the VPN setup and of its loop\<close>

lemma ApplyVpnSetup_remove:
  "ApplyVpnSetup w usernames interface False s =
     (let r4 = ip_rule w kIPv4 False; r6 = ip_rule w kIPv6 False;
          m4 = masquerade w (kIpTablesPath w) interface False;
          m6 = masquerade w (kIp6TablesPath w) interface False;
          h = issued s
      in for_usernames w usernames interface False
           (succeeds w h r4 \<and> succeeds w (h @ [r4]) r6 \<and>
            succeeds w (h @ [r4, r6]) m4 \<and> succeeds w (h @ [r4, r6, m4]) m6)
           [] (having_issued s [r4, r6, m4, m6]))"
  by (subst ApplyVpnSetup.simps)
     (auto simp add: ApplyRuleForUserTraffic_eq ApplyMasquerade46_eq Let_def)

lemma for_usernames_remove_Cons:
  "for_usernames w (username # rest) interface False return_value added_usernames s =
     (let k4 = mark_user w (kIpTablesPath w) username False;
          k6 = mark_user w (kIp6TablesPath w) username False
      in for_usernames w rest interface False
           (return_value \<and> succeeds w (issued s) k4 \<and> succeeds w (issued s @ [k4]) k6)
           added_usernames (having_issued s [k4, k6]))"
  by (auto simp add: for_usernames.simps(2) ApplyMarkForUserTraffic46_eq Let_def)

lemma ApplyVpnSetup_add:
  "ApplyVpnSetup w usernames interface True s =
     (let r4 = ip_rule w kIPv4 True; r6 = ip_rule w kIPv6 True;
          m4 = masquerade w (kIpTablesPath w) interface True;
          m6 = masquerade w (kIp6TablesPath w) interface True;
          h = issued s
      in if \<not> succeeds w h r4 then (False, having_issued s [r4])
         else if \<not> succeeds w (h @ [r4]) r6 then
           (False, snd (ApplyVpnSetup w [] interface False (having_issued s [r4, r6])))
         else if \<not> succeeds w (h @ [r4, r6]) m4 then
           (False, snd (ApplyVpnSetup w [] interface False (having_issued s [r4, r6, m4])))
         else if \<not> succeeds w (h @ [r4, r6, m4]) m6 then
           (False, snd (ApplyVpnSetup w [] interface False (having_issued s [r4, r6, m4, m6])))
         else for_usernames w usernames interface True True [] (having_issued s [r4, r6, m4, m6]))"
  by (subst ApplyVpnSetup.simps)
     (auto simp add: ApplyRuleForUserTraffic_eq ApplyMasquerade46_eq Let_def)

lemma for_usernames_add_Cons:
  "for_usernames w (username # rest) interface True return_value added_usernames s =
     (let k4 = mark_user w (kIpTablesPath w) username True;
          k6 = mark_user w (kIp6TablesPath w) username True
      in if \<not> succeeds w (issued s) k4 then
           (False, snd (ApplyVpnSetup w added_usernames interface False (having_issued s [k4])))
         else if \<not> succeeds w (issued s @ [k4]) k6 then
           (False, snd (ApplyVpnSetup w added_usernames interface False (having_issued s [k4, k6])))
         else for_usernames w rest interface True return_value (added_usernames @ [username])
                (having_issued s [k4, k6]))"
  by (auto simp add: for_usernames.simps(2) ApplyMarkForUserTraffic46_eq Let_def)

subsection \<open>The capability flag is never cleared\<close>


lemma for_usernames_remove_flag:
  "ip6_enabled (snd (for_usernames w usernames interface False return_value added_usernames s)) = ip6_enabled s"
  by (induction usernames arbitrary: return_value added_usernames s)
     (simp_all add: for_usernames_remove_Cons Let_def)

lemma ApplyVpnSetup_remove_flag:
  "ip6_enabled (snd (ApplyVpnSetup w usernames interface False s)) = ip6_enabled s"
  by (simp add: ApplyVpnSetup_remove Let_def for_usernames_remove_flag)

lemma for_usernames_add_flag:
  "ip6_enabled (snd (for_usernames w usernames interface True return_value added_usernames s)) = ip6_enabled s"
  by (induction usernames arbitrary: return_value added_usernames s)
     (simp_all add: for_usernames_add_Cons Let_def ApplyVpnSetup_remove_flag)

lemma ApplyVpnSetup_flag:
  "ip6_enabled (snd (ApplyVpnSetup w usernames interface add s)) = ip6_enabled s"
  by (cases add)
     (simp_all add: ApplyVpnSetup_add ApplyVpnSetup_remove_flag for_usernames_add_flag Let_def)

lemma AddAcceptRules_flag:
  "ip6_enabled s \<Longrightarrow> ip6_enabled (snd (AddAcceptRules w protocol port interface s))"
  by (simp add: AddAcceptRules_eq Let_def)

lemma DeleteAcceptRules_flag:
  "ip6_enabled (snd (DeleteAcceptRules w protocol port interface s)) = ip6_enabled s"
  by (simp add: DeleteAcceptRules_eq Let_def)

lemma store_flag [simp]: "ip6_enabled (store holes hs s) = ip6_enabled s"
  by (cases holes) simp_all

lemma PunchHole_flag:
  "ip6_enabled s \<Longrightarrow> ip6_enabled (snd (PunchHole w port interface holes protocol s))"
  using AddAcceptRules_flag [of s w protocol port interface]
  by (cases "AddAcceptRules w protocol port interface s") (simp add: PunchHole_def Let_def)

lemma PlugHole_flag:
  "ip6_enabled (snd (PlugHole w port interface holes protocol s)) = ip6_enabled s"
  using DeleteAcceptRules_flag [of w protocol port interface s]
  by (cases "DeleteAcceptRules w protocol port interface s") (simp add: PlugHole_def Let_def)

lemma plug_each_flag:
  "ip6_enabled (plug_each w hs holes protocol s) = ip6_enabled s"
  by (induction hs arbitrary: s) (simp_all add: PlugHole_flag)

lemma PlugAllHoles_flag:
  "PlugAllHoles w s = Inr s' \<Longrightarrow> ip6_enabled s' = ip6_enabled s"
  by (auto simp add: PlugAllHoles_def Let_def plug_each_flag split: if_splits)

lemma invoke_flag:
  "ip6_enabled s \<Longrightarrow> ip6_enabled (snd (invoke w c s))"
  by (cases c)
     (simp_all add: PunchTcpHole_def PunchUdpHole_def PlugTcpHole_def PlugUdpHole_def
        RequestVpnSetup_def RemoveVpnSetup_def PunchHole_flag PlugHole_flag ApplyVpnSetup_flag)

lemma invoke_all_flag:
  "ip6_enabled s \<Longrightarrow> ip6_enabled (invoke_all w cs s)"
  by (induction cs arbitrary: s) (simp_all add: invoke_flag)

lemmas cmd_defs = add_accept_def delete_accept_def masquerade_def mark_user_def ip_rule_def
  jailed_def kIpTablesPath_def kIp6TablesPath_def kIpPath_def mock_def
  AddAcceptRule_argv_def DeleteAcceptRule_argv_def accept_argv_def ApplyMasquerade_argv_def
  ApplyMarkForUserTraffic_argv_def ApplyRuleForUserTraffic_argv_def

subsection \<open>Commands and the flag are independent fields\<close>

lemma having_issued_flag_update:
  "having_issued (s\<lparr>ip6_enabled := b\<rparr>) cs = (having_issued s cs)\<lparr>ip6_enabled := b\<rparr>"
  by (simp add: having_issued_def)

subsection \<open>Interface names and decimal ports\<close>

lemma only_permitted_chars_iff:
  "only_permitted_chars cs = list_all (\<lambda>c. isalnum c \<or> c = CHR ''-'' \<or> c = CHR ''.'') cs"
  by (induction cs) auto

lemma StartsWith_single: "StartsWith str [c] = (str \<noteq> [] \<and> hd str = c)"
  by (cases str) (simp_all add: StartsWith_def)

lemma EndsWith_single: "EndsWith str [c] = (str \<noteq> [] \<and> last str = c)"
proof (cases "str = []")
  case True
  then show ?thesis by (simp add: EndsWith_def)
next
  case False
  then have "str = butlast str @ [last str]" by simp
  then have "drop (length str - 1) str = [last str]"
    by (metis append_eq_conv_conj length_butlast)
  with False show ?thesis by (auto simp add: EndsWith_def)
qed

lemma IsValidInterfaceName_iff: "IsValidInterfaceName iface = valid_name_spec iface"
  by (auto simp add: IsValidInterfaceName_def valid_name_spec_def kInterfaceNameSize_def
        StartsWith_single EndsWith_single only_permitted_chars_iff)

lemma store_issued [simp]: "issued (store holes hs s) = issued s"
  by (cases holes) simp_all

lemma to_string_80: "to_string 80 = ''80''"
  by (simp add: to_string.simps char_of_def bit_Suc_0_iff)

subsection \<open>The hole sets under rule application\<close>

lemma deref_store [simp]: "deref holes (store holes hs s) = hs"
  by (cases holes) simp_all

lemma deref_having_issued [simp]: "deref holes (having_issued s cs) = deref holes s"
  by (cases holes) simp_all

lemma deref_flag_update [simp]: "deref holes (s\<lparr>ip6_enabled := b\<rparr>) = deref holes s"
  by (cases holes) simp_all

lemma issued_since_having_issued [simp]: "issued_since s (having_issued s cs) = cs"
  by (simp add: issued_since_def)

lemma issued_since_append: "issued s' = issued s @ cs \<Longrightarrow> issued_since s s' = cs"
  by (simp add: issued_since_def)

lemma issued_since_self [simp]: "issued_since s s = []"
  by (simp add: issued_since_def)

lemma tables_paths_differ: "kIpTablesPath w \<noteq> kIp6TablesPath w"
  by (simp add: kIpTablesPath_def kIp6TablesPath_def)

lemma add_accept_differ:
  "add_accept w (kIpTablesPath w) protocol port interface
     \<noteq> add_accept w (kIp6TablesPath w) protocol port interface"
  by (simp add: add_accept_def jailed_def AddAcceptRule_argv_def accept_argv_def
        tables_paths_differ)

lemma AddAcceptRules_deref [simp]:
  "deref holes (snd (AddAcceptRules w protocol port interface s)) = deref holes s"
  by (simp add: AddAcceptRules_eq Let_def)

lemma DeleteAcceptRules_deref [simp]:
  "deref holes (snd (DeleteAcceptRules w protocol port interface s)) = deref holes s"
  by (simp add: DeleteAcceptRules_eq Let_def)

lemma AddAcceptRules_failure_frame:
  "\<not> fst (AddAcceptRules w protocol port interface s) \<Longrightarrow>
     tcp_holes (snd (AddAcceptRules w protocol port interface s)) = tcp_holes s \<and>
     udp_holes (snd (AddAcceptRules w protocol port interface s)) = udp_holes s \<and>
     ip6_enabled (snd (AddAcceptRules w protocol port interface s)) = ip6_enabled s"
  by (simp add: AddAcceptRules_eq Let_def split: if_splits)

lemma AddAcceptRules_success_issued:
  "fst (AddAcceptRules w protocol port interface s) \<Longrightarrow>
     issued (snd (AddAcceptRules w protocol port interface s)) =
       issued s @ [add_accept w (kIpTablesPath w) protocol port interface,
                   add_accept w (kIp6TablesPath w) protocol port interface]"
  by (simp add: AddAcceptRules_eq Let_def split: if_splits)

lemma PunchHole_tracked:
  "port \<noteq> 0 \<Longrightarrow> IsValidInterfaceName interface \<Longrightarrow> (port, interface) |\<in>| deref holes s \<Longrightarrow>
     PunchHole w port interface holes protocol s = (True, s)"
  by (simp add: PunchHole_def)

lemma PunchHole_untracked:
  "port \<noteq> 0 \<Longrightarrow> IsValidInterfaceName interface \<Longrightarrow> (port, interface) |\<notin>| deref holes s \<Longrightarrow>
     PunchHole w port interface holes protocol s =
       (let r = AddAcceptRules w protocol port interface s
        in if fst r then (True, store holes (finsert (port, interface) (deref holes s)) (snd r))
           else (False, snd r))"
  by (cases "AddAcceptRules w protocol port interface s")
     (use AddAcceptRules_deref [of holes w protocol port interface s] in
       \<open>simp add: PunchHole_def Let_def del: AddAcceptRules_deref\<close>)

lemma PunchHole_success_tracks:
  "fst (PunchHole w port interface holes protocol s) \<Longrightarrow>
     (port, interface) |\<in>| deref holes (snd (PunchHole w port interface holes protocol s))"
  by (cases "AddAcceptRules w protocol port interface s")
     (simp add: PunchHole_def Let_def split: if_splits)

subsection \<open>Plugging a list of holes\<close>

lemma PlugHole_deref_cases:
  "deref holes (snd (PlugHole w p i holes protocol t)) =
     (if fst (PlugHole w p i holes protocol t) then deref holes t |-| {|(p, i)|}
      else deref holes t)"
  using DeleteAcceptRules_deref [of holes w protocol p i t]
  by (cases "DeleteAcceptRules w protocol p i t")
     (simp add: PlugHole_def Let_def del: DeleteAcceptRules_deref)

lemma DeleteAcceptRules_sets [simp]:
  "tcp_holes (snd (DeleteAcceptRules w protocol p i t)) = tcp_holes t"
  "udp_holes (snd (DeleteAcceptRules w protocol p i t)) = udp_holes t"
  by (simp_all add: DeleteAcceptRules_eq Let_def)

lemma PlugHole_other_set:
  "udp_holes (snd (PlugHole w p i TcpHoles protocol t)) = udp_holes t"
  "tcp_holes (snd (PlugHole w p i UdpHoles protocol t)) = tcp_holes t"
  using DeleteAcceptRules_sets [of w protocol p i t]
  by (cases "DeleteAcceptRules w protocol p i t";
      simp add: PlugHole_def Let_def del: DeleteAcceptRules_sets)+

lemma plug_each_other_set:
  "udp_holes (plug_each w hs TcpHoles protocol t) = udp_holes t"
  "tcp_holes (plug_each w hs UdpHoles protocol t) = tcp_holes t"
  by (induction hs arbitrary: t) (simp_all add: PlugHole_other_set)

lemma plug_each_keeps:
  "h |\<in>| deref holes t \<Longrightarrow> h \<notin> set hs \<Longrightarrow> h |\<in>| deref holes (plug_each w hs holes protocol t)"
proof (induction hs arbitrary: t)
  case Nil
  then show ?case by simp
next
  case (Cons x hs)
  from Cons.prems have "h \<noteq> x" "h \<notin> set hs" by auto
  with Cons.prems(1)
  have "h |\<in>| deref holes (snd (PlugHole w (fst x) (snd x) holes protocol t))"
    by (cases x) (simp add: PlugHole_deref_cases)
  with Cons.IH \<open>h \<notin> set hs\<close> show ?case by simp
qed

lemma plug_each_append:
  "plug_each w (xs @ ys) holes protocol t = plug_each w ys holes protocol (plug_each w xs holes protocol t)"
  by (induction xs arbitrary: t) simp_all

lemma failed_plug_survives:
  assumes snapshot: "sorted_list_of_fset (deref holes t) = pre @ h # post"
    and failed: "\<not> fst (PlugHole w (fst h) (snd h) holes protocol (plug_each w pre holes protocol t))"
  shows "h |\<in>| deref holes (plug_each w (sorted_list_of_fset (deref holes t)) holes protocol t)"
proof -
  have "distinct (sorted_list_of_fset (deref holes t))"
    by (simp add: sorted_list_of_fset.rep_eq)
  then have "distinct (pre @ h # post)"
    by (simp only: snapshot)
  then have fresh_h: "h \<notin> set pre" "h \<notin> set post" by auto
  have "set (pre @ h # post) = fset (deref holes t)"
    using snapshot sorted_list_of_fset_simps(1) by metis
  then have "h |\<in>| deref holes t" by auto
  with fresh_h(1) have "h |\<in>| deref holes (plug_each w pre holes protocol t)"
    by (simp add: plug_each_keeps)
  with failed
  have "h |\<in>| deref holes (snd (PlugHole w (fst h) (snd h) holes protocol (plug_each w pre holes protocol t)))"
    by (simp add: PlugHole_deref_cases)
  with fresh_h(2)
  have "h |\<in>| deref holes (plug_each w post holes protocol
          (snd (PlugHole w (fst h) (snd h) holes protocol (plug_each w pre holes protocol t))))"
    by (simp add: plug_each_keeps)
  then show ?thesis
    by (simp add: snapshot plug_each_append)
qed

lemma sorted_list_of_fset_empty [simp]: "sorted_list_of_fset {||} = []"
  by (simp add: sorted_list_of_fset.rep_eq)

lemma sorted_list_of_fset_single [simp]: "sorted_list_of_fset {|x|} = [x]"
  by (simp add: sorted_list_of_fset.rep_eq)

subsection \<open>The commands of a walk over the holes\<close>

lemma sorted_list_of_fset_of_list:
  "sorted xs \<Longrightarrow> distinct xs \<Longrightarrow> sorted_list_of_fset (fset_of_list xs) = xs"
  by (simp add: sorted_list_of_fset.rep_eq fset_of_list.rep_eq
        sorted_list_of_set.idem_if_sorted_distinct)

lemma plug_each_fold:
  "plug_each w hs holes protocol t =
     fold (\<lambda>h t. snd (PlugHole w (fst h) (snd h) holes protocol t)) hs t"
  by (induction hs arbitrary: t) simp_all

lemma PlugHole_issued_grows:
  "\<exists>cs. issued (snd (PlugHole w p i holes protocol t)) = issued t @ cs"
  by (simp add: PlugHole_def Let_def DeleteAcceptRules_eq)

lemma PlugHole_tracked_issues:
  "p \<noteq> 0 \<Longrightarrow> (p, i) |\<in>| deref holes t \<Longrightarrow>
     \<exists>cs. issued (snd (PlugHole w p i holes protocol t)) =
       issued t @ delete_accept w (kIpTablesPath w) protocol p i # cs"
  by (simp add: PlugHole_def Let_def DeleteAcceptRules_eq)

lemma plug_each_issued_grows:
  "\<exists>cs. issued (plug_each w hs holes protocol t) = issued t @ cs"
proof (induction hs arbitrary: t)
  case Nil
  show ?case by simp
next
  case (Cons x hs)
  obtain cs where "issued (snd (PlugHole w (fst x) (snd x) holes protocol t)) = issued t @ cs"
    using PlugHole_issued_grows by blast
  moreover obtain ds where
    "issued (plug_each w hs holes protocol (snd (PlugHole w (fst x) (snd x) holes protocol t)))
       = issued (snd (PlugHole w (fst x) (snd x) holes protocol t)) @ ds"
    using Cons.IH by blast
  ultimately show ?case by simp
qed

lemma plug_each_issues:
  assumes "distinct hs" and "\<forall>x \<in> set hs. x |\<in>| deref holes t"
    and "h \<in> set hs" and "fst h \<noteq> 0"
  shows "\<exists>pre post. issued (plug_each w hs holes protocol t) =
           issued t @ pre @ delete_accept w (kIpTablesPath w) protocol (fst h) (snd h) # post"
  using assms
proof (induction hs arbitrary: t)
  case Nil
  then show ?case by simp
next
  case (Cons x hs)
  let ?t' = "snd (PlugHole w (fst x) (snd x) holes protocol t)"
  let ?d = "delete_accept w (kIpTablesPath w) protocol (fst h) (snd h)"
  show ?case
  proof (cases "h = x")
    case True
    with Cons.prems have "(fst h, snd h) |\<in>| deref holes t" by simp
    with Cons.prems(4) obtain cs where
      "issued (snd (PlugHole w (fst h) (snd h) holes protocol t)) = issued t @ ?d # cs"
      using PlugHole_tracked_issues by blast
    moreover obtain ds where "issued (plug_each w hs holes protocol ?t') = issued ?t' @ ds"
      using plug_each_issued_grows by blast
    ultimately have "issued (plug_each w (x # hs) holes protocol t) = issued t @ [] @ ?d # (cs @ ds)"
      using True by simp
    then show ?thesis by blast
  next
    case False
    with Cons.prems have h_in: "h \<in> set hs" by simp
    have "\<forall>y \<in> set hs. y |\<in>| deref holes ?t'"
    proof
      fix y assume y: "y \<in> set hs"
      with Cons.prems have "y \<noteq> x" "y |\<in>| deref holes t" by auto
      then show "y |\<in>| deref holes ?t'"
        by (cases x) (simp add: PlugHole_deref_cases)
    qed
    moreover from Cons.prems have "distinct hs" by simp
    ultimately obtain pre post where
      "issued (plug_each w hs holes protocol ?t') = issued ?t' @ pre @ ?d # post"
      using Cons.IH h_in Cons.prems(4) by blast
    moreover obtain cs where "issued ?t' = issued t @ cs"
      using PlugHole_issued_grows by blast
    ultimately have "issued (plug_each w (x # hs) holes protocol t) = issued t @ (cs @ pre) @ ?d # post"
      by simp
    then show ?thesis by blast
  qed
qed

lemma snapshot_issues:
  assumes "h |\<in>| deref holes t" and "fst h \<noteq> 0"
  shows "\<exists>pre post. issued (plug_each w (sorted_list_of_fset (deref holes t)) holes protocol t) =
           issued t @ pre @ delete_accept w (kIpTablesPath w) protocol (fst h) (snd h) # post"
proof -
  have "distinct (sorted_list_of_fset (deref holes t))"
    by (simp add: sorted_list_of_fset.rep_eq)
  moreover have "\<forall>x \<in> set (sorted_list_of_fset (deref holes t)). x |\<in>| deref holes t"
    by simp
  moreover from assms(1) have "h \<in> set (sorted_list_of_fset (deref holes t))"
    by simp
  ultimately show ?thesis
    using assms(2) by (rule plug_each_issues)
qed

subsection \<open>The commands of a rollback\<close>

lemma rollback_nobody:
  "snd (ApplyVpnSetup w [] interface False s) =
     having_issued s
       [ip_rule w kIPv4 False, ip_rule w kIPv6 False,
        masquerade w (kIpTablesPath w) interface False,
        masquerade w (kIp6TablesPath w) interface False]"
  by (simp add: ApplyVpnSetup_remove Let_def)

lemma rollback_one_user:
  "snd (ApplyVpnSetup w [u1] interface False s) =
     having_issued s
       [ip_rule w kIPv4 False, ip_rule w kIPv6 False,
        masquerade w (kIpTablesPath w) interface False,
        masquerade w (kIp6TablesPath w) interface False,
        mark_user w (kIpTablesPath w) u1 False,
        mark_user w (kIp6TablesPath w) u1 False]"
  by (simp add: ApplyVpnSetup_remove for_usernames_remove_Cons Let_def)

lemmas const_defs = kUnprivilegedUser_def kIpTablesCapMask_def CAP_TO_MASK_def CAP_NET_ADMIN_def
  CAP_NET_RAW_def kMarkForUserTraffic_def kTableIdForUserTraffic_def

section \<open>The claims\<close>

text \<open>
  C1. \<^verbatim>\<open>AddAcceptRules\<close> applies the accept rule with iptables first and, if that
  fails, fails at once without trying ip6tables. If iptables succeeds and ip6tables
  succeeds, the capability flag becomes true and the call succeeds. If ip6tables fails
  while the flag is true, the iptables rule just added is deleted and the call fails. If
  ip6tables fails while the flag is false, the call succeeds and the flag stays false.
  Once the flag is true it stays true through this call, through every sequence of calls
  of the public methods, and through \<^verbatim>\<open>PlugAllHoles\<close>.
\<close>

theorem AddAcceptRules_dual_stack:
  "let a4 = add_accept w (kIpTablesPath w) protocol port interface;
       a6 = add_accept w (kIp6TablesPath w) protocol port interface;
       d4 = delete_accept w (kIpTablesPath w) protocol port interface;
       r = AddAcceptRules w protocol port interface s
   in (\<not> succeeds w (issued s) a4 \<longrightarrow> r = (False, having_issued s [a4])) \<and>
      (succeeds w (issued s) a4 \<and> succeeds w (issued s @ [a4]) a6 \<longrightarrow>
         r = (True, (having_issued s [a4, a6])\<lparr>ip6_enabled := True\<rparr>)) \<and>
      (succeeds w (issued s) a4 \<and> \<not> succeeds w (issued s @ [a4]) a6 \<and> ip6_enabled s \<longrightarrow>
         r = (False, having_issued s [a4, a6, d4])) \<and>
      (succeeds w (issued s) a4 \<and> \<not> succeeds w (issued s @ [a4]) a6 \<and> \<not> ip6_enabled s \<longrightarrow>
         r = (True, having_issued s [a4, a6]) \<and> \<not> ip6_enabled (snd r)) \<and>
      (ip6_enabled s \<longrightarrow>
         ip6_enabled (snd r) \<and>
         ip6_enabled (invoke_all w calls s) \<and>
         (\<forall>s'. PlugAllHoles w s = Inr s' \<longrightarrow> ip6_enabled s'))"
  using invoke_all_flag [of s w calls] PlugAllHoles_flag [of w s]
  by (simp add: AddAcceptRules_eq Let_def)

theorem AddAcceptRules_dual_stack_witness:
  "AddAcceptRules (mock False [add_accept (mock False []) ''/sbin/iptables'' kProtocolTcp 80 ''iface''])
     kProtocolTcp 80 ''iface'' (fresh True)
   = (False, having_issued (fresh True)
        [add_accept (mock False []) ''/sbin/iptables'' kProtocolTcp 80 ''iface'']) \<and>
   AddAcceptRules (mock False []) kProtocolTcp 80 ''iface'' (fresh False)
   = (True, fresh True\<lparr>issued :=
        [add_accept (mock False []) ''/sbin/iptables'' kProtocolTcp 80 ''iface'',
         add_accept (mock False []) ''/sbin/ip6tables'' kProtocolTcp 80 ''iface'']\<rparr>) \<and>
   AddAcceptRules (mock False [add_accept (mock False []) ''/sbin/ip6tables'' kProtocolTcp 80 ''iface''])
     kProtocolTcp 80 ''iface'' (fresh True)
   = (False, having_issued (fresh True)
        [add_accept (mock False []) ''/sbin/iptables'' kProtocolTcp 80 ''iface'',
         add_accept (mock False []) ''/sbin/ip6tables'' kProtocolTcp 80 ''iface'',
         delete_accept (mock False []) ''/sbin/iptables'' kProtocolTcp 80 ''iface'']) \<and>
   AddAcceptRules (mock False [add_accept (mock False []) ''/sbin/ip6tables'' kProtocolTcp 80 ''iface''])
     kProtocolTcp 80 ''iface'' (fresh False)
   = (True, having_issued (fresh False)
        [add_accept (mock False []) ''/sbin/iptables'' kProtocolTcp 80 ''iface'',
         add_accept (mock False []) ''/sbin/ip6tables'' kProtocolTcp 80 ''iface'']) \<and>
   ip6_enabled (fresh True) \<and>
   ip6_enabled (invoke_all (mock False [add_accept (mock False []) ''/sbin/ip6tables'' kProtocolTcp 80 ''iface''])
     [CallPunchTcpHole 80 ''iface'', CallRemoveVpnSetup [''testuser0''] ''ifc0''] (fresh True)) \<and>
   PlugAllHoles (mock False []) (fresh True) = Inr (fresh True)"
  using
    AddAcceptRules_dual_stack [of "mock False [add_accept (mock False []) ''/sbin/iptables'' kProtocolTcp 80 ''iface'']"
      kProtocolTcp 80 "''iface''" "fresh True" "[]"]
    AddAcceptRules_dual_stack [of "mock False []" kProtocolTcp 80 "''iface''" "fresh False" "[]"]
    AddAcceptRules_dual_stack [of "mock False [add_accept (mock False []) ''/sbin/ip6tables'' kProtocolTcp 80 ''iface'']"
      kProtocolTcp 80 "''iface''" "fresh True"
      "[CallPunchTcpHole 80 ''iface'', CallRemoveVpnSetup [''testuser0''] ''ifc0'']"]
    AddAcceptRules_dual_stack [of "mock False [add_accept (mock False []) ''/sbin/ip6tables'' kProtocolTcp 80 ''iface'']"
      kProtocolTcp 80 "''iface''" "fresh False" "[]"]
    AddAcceptRules_dual_stack [of "mock False []" kProtocolTcp 80 "''iface''" "fresh True" "[]"]
  by (simp add: Let_def cmd_defs fresh_def IpTables_new_def having_issued_def
        PlugAllHoles_def sorted_list_of_fset.rep_eq)

text \<open>
  C7. \<^verbatim>\<open>DeleteAcceptRules\<close> always attempts the removal with iptables; it attempts
  the removal with ip6tables exactly when the capability flag is true, also after a
  failed iptables removal. Its result is the conjunction of the attempted removals, so
  a removal that was not attempted counts as a success.
\<close>

theorem DeleteAcceptRules_policy:
  "let d4 = delete_accept w (kIpTablesPath w) protocol port interface;
       d6 = delete_accept w (kIp6TablesPath w) protocol port interface;
       r = DeleteAcceptRules w protocol port interface s
   in (ip6_enabled s \<longrightarrow>
         r = (succeeds w (issued s) d4 \<and> succeeds w (issued s @ [d4]) d6,
              having_issued s [d4, d6])) \<and>
      (\<not> ip6_enabled s \<longrightarrow>
         r = (succeeds w (issued s) d4, having_issued s [d4]))"
  by (simp add: DeleteAcceptRules_eq Let_def)

theorem DeleteAcceptRules_policy_witness:
  "ip6_enabled (fresh True) \<and>
   DeleteAcceptRules (mock False [delete_accept (mock False []) ''/sbin/iptables'' kProtocolUdp 53 ''eth0''])
     kProtocolUdp 53 ''eth0'' (fresh True)
   = (False, having_issued (fresh True)
        [delete_accept (mock False []) ''/sbin/iptables'' kProtocolUdp 53 ''eth0'',
         delete_accept (mock False []) ''/sbin/ip6tables'' kProtocolUdp 53 ''eth0'']) \<and>
   \<not> ip6_enabled (fresh False) \<and>
   DeleteAcceptRules (mock False [delete_accept (mock False []) ''/sbin/ip6tables'' kProtocolUdp 53 ''eth0''])
     kProtocolUdp 53 ''eth0'' (fresh False)
   = (True, having_issued (fresh False)
        [delete_accept (mock False []) ''/sbin/iptables'' kProtocolUdp 53 ''eth0''])"
  using
    DeleteAcceptRules_policy [of "mock False [delete_accept (mock False []) ''/sbin/iptables'' kProtocolUdp 53 ''eth0'']"
      kProtocolUdp 53 "''eth0''" "fresh True"]
    DeleteAcceptRules_policy [of "mock False [delete_accept (mock False []) ''/sbin/ip6tables'' kProtocolUdp 53 ''eth0'']"
      kProtocolUdp 53 "''eth0''" "fresh False"]
  by (simp add: Let_def cmd_defs fresh_def IpTables_new_def having_issued_def)

text \<open>
  C8. \<^verbatim>\<open>ApplyMasquerade46\<close> and \<^verbatim>\<open>ApplyMarkForUserTraffic46\<close> follow one policy.
  On add, a failure with iptables ends the call with failure and ip6tables is not tried;
  otherwise ip6tables is tried and the call succeeds iff both succeeded. On remove, both
  are tried, ip6tables also after iptables failed, and the call succeeds iff both
  succeeded. Neither the result nor the commands depend on the capability flag, and the
  flag is left as it was.
\<close>

theorem masquerade_and_mark_policy:
  "let m4 = masquerade w (kIpTablesPath w) interface add;
       m6 = masquerade w (kIp6TablesPath w) interface add;
       k4 = mark_user w (kIpTablesPath w) username add;
       k6 = mark_user w (kIp6TablesPath w) username add;
       rm = ApplyMasquerade46 w interface add s;
       rk = ApplyMarkForUserTraffic46 w username add s
   in (add \<and> \<not> succeeds w (issued s) m4 \<longrightarrow> rm = (False, having_issued s [m4])) \<and>
      (add \<and> succeeds w (issued s) m4 \<longrightarrow>
         rm = (succeeds w (issued s @ [m4]) m6, having_issued s [m4, m6])) \<and>
      (\<not> add \<longrightarrow>
         rm = (succeeds w (issued s) m4 \<and> succeeds w (issued s @ [m4]) m6,
               having_issued s [m4, m6])) \<and>
      (add \<and> \<not> succeeds w (issued s) k4 \<longrightarrow> rk = (False, having_issued s [k4])) \<and>
      (add \<and> succeeds w (issued s) k4 \<longrightarrow>
         rk = (succeeds w (issued s @ [k4]) k6, having_issued s [k4, k6])) \<and>
      (\<not> add \<longrightarrow>
         rk = (succeeds w (issued s) k4 \<and> succeeds w (issued s @ [k4]) k6,
               having_issued s [k4, k6])) \<and>
      ApplyMasquerade46 w interface add (s\<lparr>ip6_enabled := b\<rparr>)
        = (fst rm, (snd rm)\<lparr>ip6_enabled := b\<rparr>) \<and>
      ApplyMarkForUserTraffic46 w username add (s\<lparr>ip6_enabled := b\<rparr>)
        = (fst rk, (snd rk)\<lparr>ip6_enabled := b\<rparr>)"
  by (cases add)
     (simp_all add: ApplyMasquerade46_eq ApplyMarkForUserTraffic46_eq Let_def
        having_issued_flag_update)

theorem masquerade_and_mark_policy_witness:
  "ApplyMasquerade46 (mock False [masquerade (mock False []) ''/sbin/iptables'' ''ifc0'' True])
     ''ifc0'' True (fresh False)
   = (False, having_issued (fresh False) [masquerade (mock False []) ''/sbin/iptables'' ''ifc0'' True]) \<and>
   ApplyMarkForUserTraffic46 (mock False [masquerade (mock False []) ''/sbin/iptables'' ''ifc0'' True])
     ''testuser0'' True (fresh False)
   = (True, having_issued (fresh False)
        [mark_user (mock False []) ''/sbin/iptables'' ''testuser0'' True,
         mark_user (mock False []) ''/sbin/ip6tables'' ''testuser0'' True]) \<and>
   ApplyMasquerade46 (mock False [mark_user (mock False []) ''/sbin/iptables'' ''testuser0'' True])
     ''ifc0'' True (fresh True)
   = (True, having_issued (fresh True)
        [masquerade (mock False []) ''/sbin/iptables'' ''ifc0'' True,
         masquerade (mock False []) ''/sbin/ip6tables'' ''ifc0'' True]) \<and>
   ApplyMarkForUserTraffic46 (mock False [mark_user (mock False []) ''/sbin/iptables'' ''testuser0'' True])
     ''testuser0'' True (fresh True)
   = (False, having_issued (fresh True)
        [mark_user (mock False []) ''/sbin/iptables'' ''testuser0'' True]) \<and>
   ApplyMasquerade46 (mock False [masquerade (mock False []) ''/sbin/iptables'' ''ifc0'' False])
     ''ifc0'' False (fresh False)
   = (False, having_issued (fresh False)
        [masquerade (mock False []) ''/sbin/iptables'' ''ifc0'' False,
         masquerade (mock False []) ''/sbin/ip6tables'' ''ifc0'' False]) \<and>
   ApplyMarkForUserTraffic46 (mock False [masquerade (mock False []) ''/sbin/iptables'' ''ifc0'' False])
     ''testuser0'' False (fresh False)
   = (True, having_issued (fresh False)
        [mark_user (mock False []) ''/sbin/iptables'' ''testuser0'' False,
         mark_user (mock False []) ''/sbin/ip6tables'' ''testuser0'' False])"
  using
    masquerade_and_mark_policy [of "mock False [masquerade (mock False []) ''/sbin/iptables'' ''ifc0'' True]"
      "''ifc0''" True "''testuser0''" "fresh False" False]
    masquerade_and_mark_policy [of "mock False [mark_user (mock False []) ''/sbin/iptables'' ''testuser0'' True]"
      "''ifc0''" True "''testuser0''" "fresh True" True]
    masquerade_and_mark_policy [of "mock False [masquerade (mock False []) ''/sbin/iptables'' ''ifc0'' False]"
      "''ifc0''" False "''testuser0''" "fresh False" False]
  by (simp add: Let_def cmd_defs fresh_def IpTables_new_def having_issued_def)

text \<open>
  C6. \<^verbatim>\<open>PunchHole\<close> rejects port 0 and every invalid interface name for either
  protocol and either hole set: it returns false and the object, with its log of issued
  commands, is unchanged. A name is valid iff it is shorter than 16 characters, has only
  alphanumeric characters, hyphens and periods, and neither starts nor ends with a hyphen
  or a period. The seven bad names of the unit test are invalid, the three good ones
  are valid.
\<close>

theorem PunchHole_validation:
  "(port = 0 \<longrightarrow> PunchHole w port interface holes protocol s = (False, s)) \<and>
   (\<not> IsValidInterfaceName interface \<longrightarrow>
      PunchHole w port interface holes protocol s = (False, s)) \<and>
   IsValidInterfaceName interface = valid_name_spec interface \<and>
   \<not> IsValidInterfaceName ''reallylonginterfacename'' \<and>
   \<not> IsValidInterfaceName ''with spaces'' \<and>
   \<not> IsValidInterfaceName ''with$ymbols'' \<and>
   \<not> IsValidInterfaceName ''-startdash'' \<and>
   \<not> IsValidInterfaceName ''enddash-'' \<and>
   \<not> IsValidInterfaceName ''.startdot'' \<and>
   \<not> IsValidInterfaceName ''enddot.'' \<and>
   IsValidInterfaceName ''shortname'' \<and>
   IsValidInterfaceName ''middle-dash'' \<and>
   IsValidInterfaceName ''middle.dot''"
proof -
  have examples:
    "\<not> IsValidInterfaceName ''reallylonginterfacename''"
    "\<not> IsValidInterfaceName ''with spaces''"
    "\<not> IsValidInterfaceName ''with$ymbols''"
    "\<not> IsValidInterfaceName ''-startdash''"
    "\<not> IsValidInterfaceName ''enddash-''"
    "\<not> IsValidInterfaceName ''.startdot''"
    "\<not> IsValidInterfaceName ''enddot.''"
    "IsValidInterfaceName ''shortname''"
    "IsValidInterfaceName ''middle-dash''"
    "IsValidInterfaceName ''middle.dot''"
    by (simp_all add: IsValidInterfaceName_def kInterfaceNameSize_def StartsWith_def
          EndsWith_def isalnum_def)
  have rejects:
    "port = 0 \<longrightarrow> PunchHole w port interface holes protocol s = (False, s)"
    "\<not> IsValidInterfaceName interface \<longrightarrow>
       PunchHole w port interface holes protocol s = (False, s)"
    by (simp_all add: PunchHole_def)
  from examples rejects IsValidInterfaceName_iff [of interface] show ?thesis
    by blast
qed

theorem PunchHole_validation_witness:
  "PunchHole (mock False []) 0 ''iface'' TcpHoles kProtocolTcp (fresh False) = (False, fresh False) \<and>
   \<not> IsValidInterfaceName ''with spaces'' \<and>
   PunchHole (mock False []) 80 ''with spaces'' UdpHoles kProtocolUdp (fresh False)
     = (False, fresh False) \<and>
   \<not> valid_name_spec ''with spaces''"
  using PunchHole_validation [of 0 "mock False []" "''iface''" TcpHoles kProtocolTcp "fresh False"]
    PunchHole_validation [of 80 "mock False []" "''with spaces''" UdpHoles kProtocolUdp "fresh False"]
  by simp

text \<open>
  C10. The empty interface name is valid. With it, the argument vectors of the add and
  the delete accept rule have no \<^verbatim>\<open>-i\<close> pair, and the commands that
  \<^verbatim>\<open>AddAcceptRule\<close> and \<^verbatim>\<open>DeleteAcceptRule\<close> issue carry exactly these vectors.
  \<^verbatim>\<open>PunchHole\<close> on a non-zero port that is not tracked yet goes on to install the
  rule: the next command it issues is the iptables insert without \<^verbatim>\<open>-i\<close>.
  \<^verbatim>\<open>DeleteAcceptRules\<close>, and \<^verbatim>\<open>PlugHole\<close> on a tracked pair with the empty name,
  issue the iptables removal without \<^verbatim>\<open>-i\<close> and, when the flag is true, the
  ip6tables removal without \<^verbatim>\<open>-i\<close>, and nothing else.
\<close>

theorem empty_interface_name:
  "IsValidInterfaceName [] \<and>
   AddAcceptRule_argv executable_path protocol port [] =
     [executable_path, ''-I'', ''INPUT'', ''-p'',
      (if protocol = kProtocolTcp then ''tcp'' else ''udp''),
      ''--dport'', to_string (unat port), ''-j'', ''ACCEPT'', ''-w''] \<and>
   DeleteAcceptRule_argv executable_path protocol port [] =
     [executable_path, ''-D'', ''INPUT'', ''-p'',
      (if protocol = kProtocolTcp then ''tcp'' else ''udp''),
      ''--dport'', to_string (unat port), ''-j'', ''ACCEPT'', ''-w''] \<and>
   (port \<noteq> 0 \<and> (port, []) |\<notin>| deref holes s \<longrightarrow>
      take (Suc (length (issued s))) (issued (snd (PunchHole w port [] holes protocol s)))
        = issued s @
          [jailed w
             [kIpTablesPath w, ''-I'', ''INPUT'', ''-p'',
              (if protocol = kProtocolTcp then ''tcp'' else ''udp''),
              ''--dport'', to_string (unat port), ''-j'', ''ACCEPT'', ''-w'']
             kIpTablesCapMask]) \<and>
   AddAcceptRule w executable_path protocol port [] s =
     (succeeds w (issued s)
        (jailed w
           [executable_path, ''-I'', ''INPUT'', ''-p'',
            (if protocol = kProtocolTcp then ''tcp'' else ''udp''),
            ''--dport'', to_string (unat port), ''-j'', ''ACCEPT'', ''-w'']
           kIpTablesCapMask),
      s\<lparr>issued := issued s @
        [jailed w
           [executable_path, ''-I'', ''INPUT'', ''-p'',
            (if protocol = kProtocolTcp then ''tcp'' else ''udp''),
            ''--dport'', to_string (unat port), ''-j'', ''ACCEPT'', ''-w'']
           kIpTablesCapMask]\<rparr>) \<and>
   DeleteAcceptRule w executable_path protocol port [] s =
     (succeeds w (issued s)
        (jailed w
           [executable_path, ''-D'', ''INPUT'', ''-p'',
            (if protocol = kProtocolTcp then ''tcp'' else ''udp''),
            ''--dport'', to_string (unat port), ''-j'', ''ACCEPT'', ''-w'']
           kIpTablesCapMask),
      s\<lparr>issued := issued s @
        [jailed w
           [executable_path, ''-D'', ''INPUT'', ''-p'',
            (if protocol = kProtocolTcp then ''tcp'' else ''udp''),
            ''--dport'', to_string (unat port), ''-j'', ''ACCEPT'', ''-w'']
           kIpTablesCapMask]\<rparr>) \<and>
   issued (snd (DeleteAcceptRules w protocol port [] s)) =
     issued s @
       jailed w
         [kIpTablesPath w, ''-D'', ''INPUT'', ''-p'',
          (if protocol = kProtocolTcp then ''tcp'' else ''udp''),
          ''--dport'', to_string (unat port), ''-j'', ''ACCEPT'', ''-w'']
         kIpTablesCapMask
       # (if ip6_enabled s
          then [jailed w
                  [kIp6TablesPath w, ''-D'', ''INPUT'', ''-p'',
                   (if protocol = kProtocolTcp then ''tcp'' else ''udp''),
                   ''--dport'', to_string (unat port), ''-j'', ''ACCEPT'', ''-w'']
                  kIpTablesCapMask]
          else []) \<and>
   (port \<noteq> 0 \<and> (port, []) |\<in>| deref holes s \<longrightarrow>
      issued (snd (PlugHole w port [] holes protocol s)) =
        issued (snd (DeleteAcceptRules w protocol port [] s)))"
proof -
  have valid: "IsValidInterfaceName []"
    by (simp add: IsValidInterfaceName_def kInterfaceNameSize_def StartsWith_def EndsWith_def)
  have argv:
    "AddAcceptRule_argv executable_path protocol port [] =
       [executable_path, ''-I'', ''INPUT'', ''-p'',
        (if protocol = kProtocolTcp then ''tcp'' else ''udp''),
        ''--dport'', to_string (unat port), ''-j'', ''ACCEPT'', ''-w'']"
    "DeleteAcceptRule_argv executable_path protocol port [] =
       [executable_path, ''-D'', ''INPUT'', ''-p'',
        (if protocol = kProtocolTcp then ''tcp'' else ''udp''),
        ''--dport'', to_string (unat port), ''-j'', ''ACCEPT'', ''-w'']"
    for executable_path
    by (simp_all add: AddAcceptRule_argv_def DeleteAcceptRule_argv_def accept_argv_def)
  have punch:
    "take (Suc (length (issued s))) (issued (snd (PunchHole w port [] holes protocol s)))
       = issued s @ [add_accept w (kIpTablesPath w) protocol port []]"
    if "port \<noteq> 0" "(port, []) |\<notin>| deref holes s"
    using that valid by (simp add: PunchHole_def AddAcceptRules_eq Let_def)
  have rules:
    "AddAcceptRule w executable_path protocol port [] s =
       (succeeds w (issued s) (add_accept w executable_path protocol port []),
        s\<lparr>issued := issued s @ [add_accept w executable_path protocol port []]\<rparr>)"
    "DeleteAcceptRule w executable_path protocol port [] s =
       (succeeds w (issued s) (delete_accept w executable_path protocol port []),
        s\<lparr>issued := issued s @ [delete_accept w executable_path protocol port []]\<rparr>)"
    by (simp_all add: AddAcceptRule_eq DeleteAcceptRule_eq having_issued_def)
  have deletes:
    "issued (snd (DeleteAcceptRules w protocol port [] s)) =
       issued s @ delete_accept w (kIpTablesPath w) protocol port []
         # (if ip6_enabled s then [delete_accept w (kIp6TablesPath w) protocol port []] else [])"
    by (simp add: DeleteAcceptRules_eq Let_def)
  have plug:
    "issued (snd (PlugHole w port [] holes protocol s)) =
       issued (snd (DeleteAcceptRules w protocol port [] s))"
    if "port \<noteq> 0" "(port, []) |\<in>| deref holes s"
    using that
    by (cases "DeleteAcceptRules w protocol port [] s") (simp add: PlugHole_def Let_def)
  from valid punch rules deletes plug show ?thesis
    by (simp add: add_accept_def delete_accept_def argv)
qed

theorem empty_interface_name_witness:
  "(80 :: 16 word) \<noteq> 0 \<and> (80, []) |\<notin>| deref TcpHoles (fresh False) \<and>
   issued (snd (PunchHole (mock False []) 80 [] TcpHoles kProtocolTcp (fresh False))) =
     [Minijail (Some ''nobody'') 12288
        [''/sbin/iptables'', ''-I'', ''INPUT'', ''-p'', ''tcp'', ''--dport'', ''80'',
         ''-j'', ''ACCEPT'', ''-w''],
      Minijail (Some ''nobody'') 12288
        [''/sbin/ip6tables'', ''-I'', ''INPUT'', ''-p'', ''tcp'', ''--dport'', ''80'',
         ''-j'', ''ACCEPT'', ''-w'']] \<and>
   take (Suc (length (issued (fresh False))))
     (issued (snd (PunchHole (mock False []) 80 [] TcpHoles kProtocolTcp (fresh False)))) =
     [Minijail (Some ''nobody'') 12288
        [''/sbin/iptables'', ''-I'', ''INPUT'', ''-p'', ''tcp'', ''--dport'', ''80'',
         ''-j'', ''ACCEPT'', ''-w'']] \<and>
   (80, []) |\<in>| deref TcpHoles (fresh True\<lparr>tcp_holes := {|(80, [])|}\<rparr>) \<and>
   PlugHole (mock False []) 80 [] TcpHoles kProtocolTcp (fresh True\<lparr>tcp_holes := {|(80, [])|}\<rparr>) =
     (True, fresh True\<lparr>issued :=
        [Minijail (Some ''nobody'') 12288
           [''/sbin/iptables'', ''-D'', ''INPUT'', ''-p'', ''tcp'', ''--dport'', ''80'',
            ''-j'', ''ACCEPT'', ''-w''],
         Minijail (Some ''nobody'') 12288
           [''/sbin/ip6tables'', ''-D'', ''INPUT'', ''-p'', ''tcp'', ''--dport'', ''80'',
            ''-j'', ''ACCEPT'', ''-w'']]\<rparr>) \<and>
   DeleteAcceptRule (mock False []) ''/sbin/iptables'' kProtocolTcp 80 [] (fresh False) =
     (True, fresh False\<lparr>issued :=
        [Minijail (Some ''nobody'') 12288
           [''/sbin/iptables'', ''-D'', ''INPUT'', ''-p'', ''tcp'', ''--dport'', ''80'',
            ''-j'', ''ACCEPT'', ''-w'']]\<rparr>)"
  using
    empty_interface_name [of "''/sbin/iptables''" kProtocolTcp 80 TcpHoles "fresh False" "mock False []"]
    empty_interface_name [of "''/sbin/iptables''" kProtocolTcp 80 TcpHoles
      "fresh True\<lparr>tcp_holes := {|(80, [])|}\<rparr>" "mock False []"]
  by (simp add: PunchHole_def PlugHole_def AddAcceptRules_eq DeleteAcceptRules_eq Let_def
        cmd_defs const_defs fresh_def IpTables_new_def having_issued_def
        to_string_80 IsValidInterfaceName_def kInterfaceNameSize_def
        StartsWith_def EndsWith_def)

text \<open>
  C4. For a non-zero port and a valid interface name: if \<^verbatim>\<open>PunchHole\<close> succeeds, the
  same call repeated at once succeeds again and leaves the object, with its log of
  issued commands, as it was, so that over both calls the iptables add command is issued
  at most once (exactly the pair of add commands when the hole was not tracked before).
  Whenever the pair is already tracked, \<^verbatim>\<open>PunchHole\<close> returns true and changes nothing.
  When the pair is not tracked and \<^verbatim>\<open>AddAcceptRules\<close> fails, \<^verbatim>\<open>PunchHole\<close> returns
  false and both hole sets and the flag are as before.
\<close>

theorem PunchHole_idempotent:
  assumes "port \<noteq> 0" and "IsValidInterfaceName interface"
  shows
    "let hole = (port, interface);
         a4 = add_accept w (kIpTablesPath w) protocol port interface;
         a6 = add_accept w (kIp6TablesPath w) protocol port interface;
         r1 = PunchHole w port interface holes protocol s;
         r2 = PunchHole w port interface holes protocol (snd r1);
         ra = AddAcceptRules w protocol port interface s
     in (fst r1 \<longrightarrow>
           r2 = (True, snd r1) \<and>
           count_list (issued_since s (snd r2)) a4 \<le> 1 \<and>
           (hole |\<notin>| deref holes s \<longrightarrow> issued_since s (snd r2) = [a4, a6])) \<and>
        (hole |\<in>| deref holes s \<longrightarrow> r1 = (True, s)) \<and>
        (hole |\<notin>| deref holes s \<and> \<not> fst ra \<longrightarrow>
           r1 = (False, snd ra) \<and>
           tcp_holes (snd r1) = tcp_holes s \<and> udp_holes (snd r1) = udp_holes s \<and>
           ip6_enabled (snd r1) = ip6_enabled s)"
proof -
  let ?hole = "(port, interface)"
  let ?a4 = "add_accept w (kIpTablesPath w) protocol port interface"
  let ?a6 = "add_accept w (kIp6TablesPath w) protocol port interface"
  let ?r1 = "PunchHole w port interface holes protocol s"
  let ?r2 = "PunchHole w port interface holes protocol (snd ?r1)"
  let ?ra = "AddAcceptRules w protocol port interface s"
  have tracked: "?r1 = (True, s)" if "?hole |\<in>| deref holes s"
    using assms that by (rule PunchHole_tracked)
  have again: "?r2 = (True, snd ?r1)" if "fst ?r1"
    using assms PunchHole_success_tracks [OF that] by (rule PunchHole_tracked)
  have fresh_issued: "issued_since s (snd ?r2) = [?a4, ?a6]"
    if ok: "fst ?r1" and new: "?hole |\<notin>| deref holes s"
  proof -
    from ok new assms have "fst ?ra"
      by (simp add: PunchHole_untracked Let_def split: if_splits)
    then have "issued (snd ?r1) = issued s @ [?a4, ?a6]"
      using new assms by (simp add: PunchHole_untracked Let_def AddAcceptRules_success_issued)
    with again [OF ok] show ?thesis
      by (simp add: issued_since_append)
  qed
  have once: "count_list (issued_since s (snd ?r2)) ?a4 \<le> 1" if ok: "fst ?r1"
  proof (cases "?hole |\<in>| deref holes s")
    case True
    with tracked again [OF ok] show ?thesis by simp
  next
    case False
    with fresh_issued [OF ok] add_accept_differ [of w protocol port interface]
    show ?thesis by simp
  qed
  have failed:
    "?r1 = (False, snd ?ra) \<and> tcp_holes (snd ?r1) = tcp_holes s \<and>
     udp_holes (snd ?r1) = udp_holes s \<and> ip6_enabled (snd ?r1) = ip6_enabled s"
    if "?hole |\<notin>| deref holes s" "\<not> fst ?ra"
    using that assms AddAcceptRules_failure_frame [of w protocol port interface s]
    by (simp add: PunchHole_untracked Let_def)
  from tracked again fresh_issued once failed show ?thesis
    unfolding Let_def by blast
qed


theorem PunchHole_idempotent_witness:
  "(80 :: 16 word) \<noteq> 0 \<and> IsValidInterfaceName ''iface'' \<and>
   PunchHole (mock False []) 80 ''iface'' TcpHoles kProtocolTcp (fresh False) =
     (True, \<lparr>tcp_holes = {|(80, ''iface'')|}, udp_holes = {||}, ip6_enabled = True,
             issued = [add_accept (mock False []) ''/sbin/iptables'' kProtocolTcp 80 ''iface'',
                       add_accept (mock False []) ''/sbin/ip6tables'' kProtocolTcp 80 ''iface'']\<rparr>) \<and>
   PunchHole (mock False []) 80 ''iface'' TcpHoles kProtocolTcp
     (snd (PunchHole (mock False []) 80 ''iface'' TcpHoles kProtocolTcp (fresh False))) =
     (True, snd (PunchHole (mock False []) 80 ''iface'' TcpHoles kProtocolTcp (fresh False))) \<and>
   (80, ''iface'') |\<in>| deref UdpHoles (fresh False\<lparr>udp_holes := {|(80, ''iface'')|}\<rparr>) \<and>
   PunchHole (mock False []) 80 ''iface'' UdpHoles kProtocolUdp
     (fresh False\<lparr>udp_holes := {|(80, ''iface'')|}\<rparr>) =
     (True, fresh False\<lparr>udp_holes := {|(80, ''iface'')|}\<rparr>) \<and>
   \<not> fst (AddAcceptRules
           (mock False [add_accept (mock False []) ''/sbin/iptables'' kProtocolTcp 80 ''iface''])
           kProtocolTcp 80 ''iface'' (fresh False)) \<and>
   PunchHole (mock False [add_accept (mock False []) ''/sbin/iptables'' kProtocolTcp 80 ''iface''])
     80 ''iface'' TcpHoles kProtocolTcp (fresh False) =
     (False, having_issued (fresh False)
        [add_accept (mock False []) ''/sbin/iptables'' kProtocolTcp 80 ''iface''])"
proof -
  have port: "(80 :: 16 word) \<noteq> 0" by simp
  have name: "IsValidInterfaceName ''iface''"
    by (simp add: IsValidInterfaceName_def kInterfaceNameSize_def StartsWith_def EndsWith_def
          isalnum_def)
  show ?thesis
    using port name
      PunchHole_idempotent [OF port name, of "mock False []" kProtocolTcp TcpHoles "fresh False"]
      PunchHole_idempotent [OF port name, of "mock False []" kProtocolUdp UdpHoles
        "fresh False\<lparr>udp_holes := {|(80, ''iface'')|}\<rparr>"]
      PunchHole_idempotent [OF port name,
        of "mock False [add_accept (mock False []) ''/sbin/iptables'' kProtocolTcp 80 ''iface'']"
           kProtocolTcp TcpHoles "fresh False"]
    by (simp add: Let_def PunchHole_def AddAcceptRules_eq cmd_defs fresh_def IpTables_new_def
          having_issued_def)
qed

text \<open>
  C5. \<^verbatim>\<open>PlugHole\<close> on a pair that is not tracked returns false and changes nothing, no
  command is issued. So a successful \<^verbatim>\<open>PlugHole\<close> repeated at once fails; in
  particular after \<^verbatim>\<open>PunchHole(80, "iface")\<close> and \<^verbatim>\<open>PlugHole(80, "iface")\<close> have
  succeeded, the second \<^verbatim>\<open>PlugHole(80, "iface")\<close> fails. On a tracked pair (its port
  is not 0) \<^verbatim>\<open>PlugHole\<close> runs \<^verbatim>\<open>DeleteAcceptRules\<close>: if that fails it returns false
  and the pair stays tracked, if that succeeds it removes the pair and returns true.
\<close>

theorem PlugHole_not_idempotent:
  "let hole = (port, interface);
       r1 = PlugHole w port interface holes protocol s;
       rd = DeleteAcceptRules w protocol port interface s;
       p1 = PunchHole w 80 ''iface'' holes protocol s;
       p2 = PlugHole w 80 ''iface'' holes protocol (snd p1);
       p3 = PlugHole w 80 ''iface'' holes protocol (snd p2)
   in (hole |\<notin>| deref holes s \<longrightarrow> r1 = (False, s)) \<and>
      (fst p1 \<and> fst p2 \<longrightarrow> p3 = (False, snd p2)) \<and>
      (fst r1 \<longrightarrow> PlugHole w port interface holes protocol (snd r1) = (False, snd r1)) \<and>
      (port \<noteq> 0 \<and> hole |\<in>| deref holes s \<and> \<not> fst rd \<longrightarrow>
         r1 = (False, snd rd) \<and> hole |\<in>| deref holes (snd r1)) \<and>
      (port \<noteq> 0 \<and> hole |\<in>| deref holes s \<and> fst rd \<longrightarrow>
         r1 = (True, store holes (deref holes s |-| {|hole|}) (snd rd)) \<and>
         hole |\<notin>| deref holes (snd r1))"
proof -
  have untracked: "PlugHole w p i holes protocol t = (False, t)"
    if "(p, i) |\<notin>| deref holes t" for p i t
    using that by (simp add: PlugHole_def)
  have tracked:
    "PlugHole w p i holes protocol t =
       (if fst (DeleteAcceptRules w protocol p i t)
        then (True, store holes (deref holes t |-| {|(p, i)|}) (snd (DeleteAcceptRules w protocol p i t)))
        else (False, snd (DeleteAcceptRules w protocol p i t)))"
    if "p \<noteq> 0" "(p, i) |\<in>| deref holes t" for p i t
    using that DeleteAcceptRules_deref [of holes w protocol p i t]
    by (cases "DeleteAcceptRules w protocol p i t")
       (simp add: PlugHole_def Let_def del: DeleteAcceptRules_deref)
  have gone: "(p, i) |\<notin>| deref holes (snd (PlugHole w p i holes protocol t))"
    if "fst (PlugHole w p i holes protocol t)" for p i t
  proof (cases "p \<noteq> 0 \<and> (p, i) |\<in>| deref holes t")
    case True
    with that show ?thesis by (simp add: tracked split: if_splits)
  next
    case False
    with that show ?thesis by (auto simp add: PlugHole_def)
  qed
  have twice: "PlugHole w p i holes protocol (snd (PlugHole w p i holes protocol t))
      = (False, snd (PlugHole w p i holes protocol t))"
    if "fst (PlugHole w p i holes protocol t)" for p i t
    using gone [OF that] by (rule untracked)
  show ?thesis
    unfolding Let_def using untracked twice by (auto simp add: tracked)
qed

theorem PlugHole_not_idempotent_witness:
  "fst (PunchHole (mock False []) 80 ''iface'' TcpHoles kProtocolTcp (fresh False)) \<and>
   fst (PlugHole (mock False []) 80 ''iface'' TcpHoles kProtocolTcp
     (snd (PunchHole (mock False []) 80 ''iface'' TcpHoles kProtocolTcp (fresh False)))) \<and>
   \<not> fst (PlugHole (mock False []) 80 ''iface'' TcpHoles kProtocolTcp
     (snd (PlugHole (mock False []) 80 ''iface'' TcpHoles kProtocolTcp
       (snd (PunchHole (mock False []) 80 ''iface'' TcpHoles kProtocolTcp (fresh False)))))) \<and>
   (53, ''eth0'') |\<notin>| deref UdpHoles (fresh True) \<and>
   PlugHole (mock False []) 53 ''eth0'' UdpHoles kProtocolUdp (fresh True) = (False, fresh True) \<and>
   (53 :: 16 word) \<noteq> 0 \<and>
   (53, ''eth0'') |\<in>| deref UdpHoles (fresh False\<lparr>udp_holes := {|(53, ''eth0'')|}\<rparr>) \<and>
   PlugHole (mock False [delete_accept (mock False []) ''/sbin/iptables'' kProtocolUdp 53 ''eth0''])
     53 ''eth0'' UdpHoles kProtocolUdp (fresh False\<lparr>udp_holes := {|(53, ''eth0'')|}\<rparr>) =
     (False, having_issued (fresh False\<lparr>udp_holes := {|(53, ''eth0'')|}\<rparr>)
        [delete_accept (mock False []) ''/sbin/iptables'' kProtocolUdp 53 ''eth0'']) \<and>
   PlugHole (mock False []) 53 ''eth0'' UdpHoles kProtocolUdp
     (fresh False\<lparr>udp_holes := {|(53, ''eth0'')|}\<rparr>) =
     (True, having_issued (fresh False)
        [delete_accept (mock False []) ''/sbin/iptables'' kProtocolUdp 53 ''eth0''])"
  using
    PlugHole_not_idempotent [of 80 "''iface''" "mock False []" TcpHoles kProtocolTcp "fresh False"]
    PlugHole_not_idempotent [of 53 "''eth0''" "mock False []" UdpHoles kProtocolUdp "fresh True"]
    PlugHole_not_idempotent [of 53 "''eth0''"
      "mock False [delete_accept (mock False []) ''/sbin/iptables'' kProtocolUdp 53 ''eth0'']"
      UdpHoles kProtocolUdp "fresh False\<lparr>udp_holes := {|(53, ''eth0'')|}\<rparr>"]
    PlugHole_not_idempotent [of 53 "''eth0''" "mock False []"
      UdpHoles kProtocolUdp "fresh False\<lparr>udp_holes := {|(53, ''eth0'')|}\<rparr>"]
  by (simp add: Let_def PunchHole_def PlugHole_def AddAcceptRules_eq DeleteAcceptRules_eq
        cmd_defs fresh_def IpTables_new_def having_issued_def IsValidInterfaceName_def
        kInterfaceNameSize_def StartsWith_def EndsWith_def isalnum_def)

text \<open>
  C9. \<^verbatim>\<open>PlugAllHoles\<close> takes a copy of the TCP set and then of the UDP set, each
  holding every tracked pair once, and hands the pairs of each copy, one after the other
  in the order of the set, to \<^verbatim>\<open>PlugHole\<close>, whatever the earlier calls returned.
  The commands issued by the call, whether it returns or not, are those of these
  \<^verbatim>\<open>PlugHole\<close> calls; among them is the iptables removal of every tracked pair (with
  a non-zero port). If the call returns, both sets are empty, and it returns exactly
  when they are empty after the two walks. If any of the \<^verbatim>\<open>PlugHole\<close> calls fails,
  its pair stays tracked and the call ends in a failed \<^verbatim>\<open>CHECK\<close> instead of
  returning.
\<close>

theorem PlugAllHoles_postcondition:
  "let plug = (\<lambda>holes protocol h t. snd (PlugHole w (fst h) (snd h) holes protocol t));
       s1 = fold (plug TcpHoles kProtocolTcp) (sorted_list_of_fset (tcp_holes s)) s;
       s2 = fold (plug UdpHoles kProtocolUdp) (sorted_list_of_fset (udp_holes s)) s1;
       r = PlugAllHoles w s
   in set (sorted_list_of_fset (tcp_holes s)) = fset (tcp_holes s) \<and>
      set (sorted_list_of_fset (udp_holes s)) = fset (udp_holes s) \<and>
      distinct (sorted_list_of_fset (tcp_holes s)) \<and>
      distinct (sorted_list_of_fset (udp_holes s)) \<and>
      commands_of r = issued s2 \<and>
      (\<forall>s'. r = Inr s' \<longrightarrow> s' = s2 \<and> tcp_holes s' = {||} \<and> udp_holes s' = {||}) \<and>
      (tcp_holes s2 = {||} \<and> udp_holes s2 = {||} \<longrightarrow> r = Inr s2) \<and>
      (tcp_holes s2 \<noteq> {||} \<longrightarrow>
         r = Inl (CheckFailed ''Failed to plug all TCP holes.'' (issued s2))) \<and>
      (tcp_holes s2 = {||} \<and> udp_holes s2 \<noteq> {||} \<longrightarrow>
         r = Inl (CheckFailed ''Failed to plug all UDP holes.'' (issued s2))) \<and>
      (\<forall>pre h post.
         sorted_list_of_fset (tcp_holes s) = pre @ h # post \<and>
         \<not> fst (PlugHole w (fst h) (snd h) TcpHoles kProtocolTcp
                  (fold (plug TcpHoles kProtocolTcp) pre s)) \<longrightarrow>
         r = Inl (CheckFailed ''Failed to plug all TCP holes.'' (issued s2))) \<and>
      (\<forall>pre h post.
         sorted_list_of_fset (udp_holes s) = pre @ h # post \<and>
         \<not> fst (PlugHole w (fst h) (snd h) UdpHoles kProtocolUdp
                  (fold (plug UdpHoles kProtocolUdp) pre s1)) \<longrightarrow>
         (\<exists>msg. r = Inl (CheckFailed msg (issued s2)))) \<and>
      (\<forall>h. h |\<in>| tcp_holes s \<and> fst h \<noteq> 0 \<longrightarrow>
         delete_accept w (kIpTablesPath w) kProtocolTcp (fst h) (snd h)
           \<in> set (drop (length (issued s)) (commands_of r))) \<and>
      (\<forall>h. h |\<in>| udp_holes s \<and> fst h \<noteq> 0 \<longrightarrow>
         delete_accept w (kIpTablesPath w) kProtocolUdp (fst h) (snd h)
           \<in> set (drop (length (issued s)) (commands_of r)))"
proof -
  define s1 where "s1 = plug_each w (sorted_list_of_fset (tcp_holes s)) TcpHoles kProtocolTcp s"
  define s2 where "s2 = plug_each w (sorted_list_of_fset (udp_holes s)) UdpHoles kProtocolUdp s1"
  have udp1: "udp_holes s1 = udp_holes s"
    by (simp add: s1_def plug_each_other_set)
  have tcp2: "tcp_holes s2 = tcp_holes s1"
    by (simp add: s2_def plug_each_other_set)
  have unfold: "PlugAllHoles w s =
      (if tcp_holes s2 \<noteq> {||}
       then Inl (CheckFailed ''Failed to plug all TCP holes.'' (issued s2))
       else if udp_holes s2 \<noteq> {||}
       then Inl (CheckFailed ''Failed to plug all UDP holes.'' (issued s2))
       else Inr s2)"
    by (simp add: PlugAllHoles_def Let_def s1_def [symmetric] udp1 s2_def [symmetric])
  have log: "commands_of (PlugAllHoles w s) = issued s2"
    by (simp add: unfold)
  have tcp_fail: "PlugAllHoles w s = Inl (CheckFailed ''Failed to plug all TCP holes.'' (issued s2))"
    if "sorted_list_of_fset (tcp_holes s) = pre @ h # post"
       "\<not> fst (PlugHole w (fst h) (snd h) TcpHoles kProtocolTcp
                (plug_each w pre TcpHoles kProtocolTcp s))"
    for pre h post
  proof -
    have "h |\<in>| deref TcpHoles (plug_each w (sorted_list_of_fset (deref TcpHoles s)) TcpHoles kProtocolTcp s)"
      using that by (intro failed_plug_survives) simp_all
    then have "h |\<in>| tcp_holes s2" by (simp add: tcp2 s1_def)
    then show ?thesis by (auto simp add: unfold)
  qed
  have udp_fail: "\<exists>msg. PlugAllHoles w s = Inl (CheckFailed msg (issued s2))"
    if "sorted_list_of_fset (udp_holes s) = pre @ h # post"
       "\<not> fst (PlugHole w (fst h) (snd h) UdpHoles kProtocolUdp
                (plug_each w pre UdpHoles kProtocolUdp s1))"
    for pre h post
  proof -
    have "h |\<in>| deref UdpHoles (plug_each w (sorted_list_of_fset (deref UdpHoles s1)) UdpHoles kProtocolUdp s1)"
      using that by (intro failed_plug_survives) (simp_all add: udp1)
    then have "h |\<in>| udp_holes s2" by (simp add: s2_def udp1)
    then show ?thesis by (auto simp add: unfold)
  qed
  obtain cs2 where grow2: "issued s2 = issued s1 @ cs2"
    unfolding s2_def using plug_each_issued_grows by blast
  obtain cs1 where grow1: "issued s1 = issued s @ cs1"
    unfolding s1_def using plug_each_issued_grows by blast
  have tcp_seen: "delete_accept w (kIpTablesPath w) kProtocolTcp (fst h) (snd h)
      \<in> set (drop (length (issued s)) (issued s2))"
    if "h |\<in>| tcp_holes s" "fst h \<noteq> 0" for h
  proof -
    from that obtain pre post where
      "issued s1 = issued s @ pre @ delete_accept w (kIpTablesPath w) kProtocolTcp (fst h) (snd h) # post"
      unfolding s1_def using snapshot_issues [of h TcpHoles s w kProtocolTcp] by auto
    with grow2 show ?thesis by simp
  qed
  have udp_seen: "delete_accept w (kIpTablesPath w) kProtocolUdp (fst h) (snd h)
      \<in> set (drop (length (issued s)) (issued s2))"
    if "h |\<in>| udp_holes s" "fst h \<noteq> 0" for h
  proof -
    from that udp1 obtain pre post where
      "issued s2 = issued s1 @ pre @ delete_accept w (kIpTablesPath w) kProtocolUdp (fst h) (snd h) # post"
      unfolding s2_def using snapshot_issues [of h UdpHoles s1 w kProtocolUdp] by auto
    with grow1 show ?thesis by simp
  qed
  have snapshot:
    "distinct (sorted_list_of_fset (tcp_holes s))" "distinct (sorted_list_of_fset (udp_holes s))"
    by (simp_all add: sorted_list_of_fset.rep_eq)
  show ?thesis
    unfolding Let_def plug_each_fold [symmetric] s1_def [symmetric] s2_def [symmetric] log
    using tcp_fail udp_fail tcp_seen udp_seen snapshot
    by (auto simp add: unfold split: if_splits)
qed

theorem PlugAllHoles_postcondition_witness:
  "sorted_list_of_fset (tcp_holes
     (fresh False\<lparr>tcp_holes := {|(81, ''a''), (80, ''iface'')|},
                   udp_holes := {|(53, ''eth0''), (54, ''eth1'')|}\<rparr>)) =
     [(80, ''iface''), (81, ''a'')] \<and>
   PlugAllHoles (mock False [])
     (fresh False\<lparr>tcp_holes := {|(81, ''a''), (80, ''iface'')|},
                   udp_holes := {|(53, ''eth0''), (54, ''eth1'')|}\<rparr>) =
     Inr (having_issued (fresh False)
       [delete_accept (mock False []) ''/sbin/iptables'' kProtocolTcp 80 ''iface'',
        delete_accept (mock False []) ''/sbin/iptables'' kProtocolTcp 81 ''a'',
        delete_accept (mock False []) ''/sbin/iptables'' kProtocolUdp 53 ''eth0'',
        delete_accept (mock False []) ''/sbin/iptables'' kProtocolUdp 54 ''eth1'']) \<and>
   sorted_list_of_fset (tcp_holes
     (fresh False\<lparr>tcp_holes := {|(80, ''iface''), (81, ''a''), (82, ''b'')|}\<rparr>)) =
     [(80, ''iface'')] @ (81, ''a'') # [(82, ''b'')] \<and>
   \<not> fst (PlugHole
       (mock False [delete_accept (mock False []) ''/sbin/iptables'' kProtocolTcp 81 ''a''])
       (fst ((81 :: 16 word), ''a'')) (snd ((81 :: 16 word), ''a'')) TcpHoles kProtocolTcp
       (fold (\<lambda>h t. snd (PlugHole
                (mock False [delete_accept (mock False []) ''/sbin/iptables'' kProtocolTcp 81 ''a''])
                (fst h) (snd h) TcpHoles kProtocolTcp t))
          [(80, ''iface'')]
          (fresh False\<lparr>tcp_holes := {|(80, ''iface''), (81, ''a''), (82, ''b'')|}\<rparr>))) \<and>
   PlugAllHoles
     (mock False [delete_accept (mock False []) ''/sbin/iptables'' kProtocolTcp 81 ''a''])
     (fresh False\<lparr>tcp_holes := {|(80, ''iface''), (81, ''a''), (82, ''b'')|}\<rparr>) =
     Inl (CheckFailed ''Failed to plug all TCP holes.''
       [delete_accept (mock False []) ''/sbin/iptables'' kProtocolTcp 80 ''iface'',
        delete_accept (mock False []) ''/sbin/iptables'' kProtocolTcp 81 ''a'',
        delete_accept (mock False []) ''/sbin/iptables'' kProtocolTcp 82 ''b'']) \<and>
   sorted_list_of_fset (udp_holes
     (fresh True\<lparr>tcp_holes := {|(80, ''iface'')|},
                  udp_holes := {|(53, ''eth0''), (54, ''eth1'')|}\<rparr>)) =
     [(53, ''eth0'')] @ (54, ''eth1'') # [] \<and>
   PlugAllHoles
     (mock False [delete_accept (mock False []) ''/sbin/ip6tables'' kProtocolUdp 54 ''eth1''])
     (fresh True\<lparr>tcp_holes := {|(80, ''iface'')|},
                  udp_holes := {|(53, ''eth0''), (54, ''eth1'')|}\<rparr>) =
     Inl (CheckFailed ''Failed to plug all UDP holes.''
       [delete_accept (mock False []) ''/sbin/iptables'' kProtocolTcp 80 ''iface'',
        delete_accept (mock False []) ''/sbin/ip6tables'' kProtocolTcp 80 ''iface'',
        delete_accept (mock False []) ''/sbin/iptables'' kProtocolUdp 53 ''eth0'',
        delete_accept (mock False []) ''/sbin/ip6tables'' kProtocolUdp 53 ''eth0'',
        delete_accept (mock False []) ''/sbin/iptables'' kProtocolUdp 54 ''eth1'',
        delete_accept (mock False []) ''/sbin/ip6tables'' kProtocolUdp 54 ''eth1''])"
  (is "?snap1 \<and> ?run1 \<and> ?snap2 \<and> ?fails2 \<and> ?run2 \<and> ?snap3 \<and> ?run3")
proof -
  let ?w2 = "mock False [delete_accept (mock False []) ''/sbin/iptables'' kProtocolTcp 81 ''a'']"
  let ?t2 = "fresh False\<lparr>tcp_holes := {|(80, ''iface''), (81, ''a''), (82, ''b'')|}\<rparr>"
  let ?w3 = "mock False [delete_accept (mock False []) ''/sbin/ip6tables'' kProtocolUdp 54 ''eth1'']"
  let ?t3 = "fresh True\<lparr>tcp_holes := {|(80, ''iface'')|},
                         udp_holes := {|(53, ''eth0''), (54, ''eth1'')|}\<rparr>"
  have two_tcp: "sorted_list_of_fset {|((81 :: 16 word), ''a''), (80, ''iface'')|}
      = [(80, ''iface''), (81, ''a'')]"
    using sorted_list_of_fset_of_list [of "[((80 :: 16 word), ''iface''), (81, ''a'')]"]
    by (simp add: finsert_commute)
  have three_tcp: "sorted_list_of_fset {|((80 :: 16 word), ''iface''), (81, ''a''), (82, ''b'')|}
      = [(80, ''iface''), (81, ''a''), (82, ''b'')]"
    using sorted_list_of_fset_of_list [of "[((80 :: 16 word), ''iface''), (81, ''a''), (82, ''b'')]"]
    by simp
  have two_udp: "sorted_list_of_fset {|((53 :: 16 word), ''eth0''), (54, ''eth1'')|}
      = [(53, ''eth0''), (54, ''eth1'')]"
    using sorted_list_of_fset_of_list [of "[((53 :: 16 word), ''eth0''), (54, ''eth1'')]"]
    by simp
  have snap1: ?snap1 by (simp add: two_tcp)
  have snap2: ?snap2 by (simp add: three_tcp)
  have snap3: ?snap3 by (simp add: two_udp)
  have fails2: ?fails2
    by (simp add: PlugHole_def DeleteAcceptRules_eq Let_def cmd_defs fresh_def IpTables_new_def
          finsert_fminus_if)
  let ?t1 = "fresh False\<lparr>tcp_holes := {|(81, ''a''), (80, ''iface'')|},
                         udp_holes := {|(53, ''eth0''), (54, ''eth1'')|}\<rparr>"
  let ?end1 = "fold (\<lambda>h t. snd (PlugHole (mock False []) (fst h) (snd h) UdpHoles kProtocolUdp t))
      (sorted_list_of_fset (udp_holes ?t1))
      (fold (\<lambda>h t. snd (PlugHole (mock False []) (fst h) (snd h) TcpHoles kProtocolTcp t))
         (sorted_list_of_fset (tcp_holes ?t1)) ?t1)"
  let ?end2 = "fold (\<lambda>h t. snd (PlugHole ?w2 (fst h) (snd h) UdpHoles kProtocolUdp t))
      (sorted_list_of_fset (udp_holes ?t2))
      (fold (\<lambda>h t. snd (PlugHole ?w2 (fst h) (snd h) TcpHoles kProtocolTcp t))
         (sorted_list_of_fset (tcp_holes ?t2)) ?t2)"
  let ?end3 = "fold (\<lambda>h t. snd (PlugHole ?w3 (fst h) (snd h) UdpHoles kProtocolUdp t))
      (sorted_list_of_fset (udp_holes ?t3))
      (fold (\<lambda>h t. snd (PlugHole ?w3 (fst h) (snd h) TcpHoles kProtocolTcp t))
         (sorted_list_of_fset (tcp_holes ?t3)) ?t3)"
  have end1: "?end1 = having_issued (fresh False)
       [delete_accept (mock False []) ''/sbin/iptables'' kProtocolTcp 80 ''iface'',
        delete_accept (mock False []) ''/sbin/iptables'' kProtocolTcp 81 ''a'',
        delete_accept (mock False []) ''/sbin/iptables'' kProtocolUdp 53 ''eth0'',
        delete_accept (mock False []) ''/sbin/iptables'' kProtocolUdp 54 ''eth1'']"
    by (simp add: PlugHole_def DeleteAcceptRules_eq Let_def cmd_defs fresh_def IpTables_new_def
          having_issued_def finsert_fminus_if two_tcp two_udp)
  have empty1: "tcp_holes ?end1 = {||} \<and> udp_holes ?end1 = {||}"
    unfolding end1 by (simp add: fresh_def IpTables_new_def)
  have run1: ?run1
    using PlugAllHoles_postcondition [of "mock False []" ?t1] empty1
    unfolding Let_def end1 by blast
  have log2: "issued ?end2 =
       [delete_accept (mock False []) ''/sbin/iptables'' kProtocolTcp 80 ''iface'',
        delete_accept (mock False []) ''/sbin/iptables'' kProtocolTcp 81 ''a'',
        delete_accept (mock False []) ''/sbin/iptables'' kProtocolTcp 82 ''b'']"
    by (simp add: PlugHole_def DeleteAcceptRules_eq Let_def cmd_defs fresh_def IpTables_new_def
          finsert_fminus_if three_tcp)
  have run2: ?run2
    using PlugAllHoles_postcondition [of ?w2 ?t2] snap2 fails2
    unfolding Let_def log2 by blast
  have log3: "issued ?end3 =
       [delete_accept (mock False []) ''/sbin/iptables'' kProtocolTcp 80 ''iface'',
        delete_accept (mock False []) ''/sbin/ip6tables'' kProtocolTcp 80 ''iface'',
        delete_accept (mock False []) ''/sbin/iptables'' kProtocolUdp 53 ''eth0'',
        delete_accept (mock False []) ''/sbin/ip6tables'' kProtocolUdp 53 ''eth0'',
        delete_accept (mock False []) ''/sbin/iptables'' kProtocolUdp 54 ''eth1'',
        delete_accept (mock False []) ''/sbin/ip6tables'' kProtocolUdp 54 ''eth1'']"
    by (simp add: PlugHole_def DeleteAcceptRules_eq Let_def cmd_defs fresh_def IpTables_new_def
          finsert_fminus_if two_udp)
  have left3: "tcp_holes ?end3 = {||} \<and> udp_holes ?end3 \<noteq> {||}"
    by (simp add: PlugHole_def DeleteAcceptRules_eq Let_def cmd_defs fresh_def IpTables_new_def
          finsert_fminus_if two_udp)
  have run3: ?run3
    using PlugAllHoles_postcondition [of ?w3 ?t3] left3
    unfolding Let_def log3 by blast
  from snap1 run1 snap2 fails2 run2 snap3 run3 show ?thesis
    by - (intro conjI, assumption+)
qed

text \<open>
  C2. A VPN add call with at least two user names, in which both routing-policy rules,
  the masquerade rule and the first user's mark rules are installed and the second
  user's mark rule then fails (with iptables, or with ip6tables after iptables
  succeeded), returns failure. Its rollback is the removal pass over the first user
  alone: it removes both routing-policy rules, then the masquerade rule, then the first
  user's mark rules, in the order of the forward pass. Nothing is removed on behalf of
  the second user, and no command is issued for the user names after it.
\<close>

theorem ApplyVpnSetup_second_user_fails:
  assumes "ApplyRuleForUserTraffic w kIPv4 True s = (True, s1)"
      and "ApplyRuleForUserTraffic w kIPv6 True s1 = (True, s2)"
      and "ApplyMasquerade46 w interface True s2 = (True, s3)"
      and "ApplyMarkForUserTraffic46 w u1 True s3 = (True, s4)"
      and "ApplyMarkForUserTraffic46 w u2 True s4 = (False, s5)"
  shows "ApplyVpnSetup w (u1 # u2 # rest) interface True s =
           (False, having_issued s5
              [ip_rule w kIPv4 False, ip_rule w kIPv6 False,
               masquerade w (kIpTablesPath w) interface False,
               masquerade w (kIp6TablesPath w) interface False,
               mark_user w (kIpTablesPath w) u1 False,
               mark_user w (kIp6TablesPath w) u1 False]) \<and>
         issued s4 = issued s @
              [ip_rule w kIPv4 True, ip_rule w kIPv6 True,
               masquerade w (kIpTablesPath w) interface True,
               masquerade w (kIp6TablesPath w) interface True,
               mark_user w (kIpTablesPath w) u1 True,
               mark_user w (kIp6TablesPath w) u1 True] \<and>
         (issued s5 = issued s4 @ [mark_user w (kIpTablesPath w) u2 True] \<or>
          issued s5 = issued s4 @ [mark_user w (kIpTablesPath w) u2 True,
                                   mark_user w (kIp6TablesPath w) u2 True])"
proof -
  let ?r4 = "ip_rule w kIPv4 True" and ?r6 = "ip_rule w kIPv6 True"
  let ?m4 = "masquerade w (kIpTablesPath w) interface True"
  let ?m6 = "masquerade w (kIp6TablesPath w) interface True"
  let ?k4 = "mark_user w (kIpTablesPath w) u1 True"
  let ?k6 = "mark_user w (kIp6TablesPath w) u1 True"
  let ?j4 = "mark_user w (kIpTablesPath w) u2 True"
  let ?j6 = "mark_user w (kIp6TablesPath w) u2 True"
  from assms(1) have ok4: "succeeds w (issued s) ?r4" and s1: "s1 = having_issued s [?r4]"
    by (simp_all add: ApplyRuleForUserTraffic_eq)
  from assms(2) s1 have ok6: "succeeds w (issued s @ [?r4]) ?r6"
    and s2: "s2 = having_issued s [?r4, ?r6]"
    by (simp_all add: ApplyRuleForUserTraffic_eq)
  from assms(3) s2 have okm4: "succeeds w (issued s @ [?r4, ?r6]) ?m4"
    and okm6: "succeeds w (issued s @ [?r4, ?r6, ?m4]) ?m6"
    and s3: "s3 = having_issued s [?r4, ?r6, ?m4, ?m6]"
    by (simp_all add: ApplyMasquerade46_eq Let_def split: if_splits)
  from assms(4) s3 have okk4: "succeeds w (issued s @ [?r4, ?r6, ?m4, ?m6]) ?k4"
    and okk6: "succeeds w (issued s @ [?r4, ?r6, ?m4, ?m6, ?k4]) ?k6"
    and s4: "s4 = having_issued s [?r4, ?r6, ?m4, ?m6, ?k4, ?k6]"
    by (simp_all add: ApplyMarkForUserTraffic46_eq Let_def split: if_splits)
  from assms(5) s4
  consider (primary) "\<not> succeeds w (issued s @ [?r4, ?r6, ?m4, ?m6, ?k4, ?k6]) ?j4"
      "s5 = having_issued s [?r4, ?r6, ?m4, ?m6, ?k4, ?k6, ?j4]"
    | (secondary) "succeeds w (issued s @ [?r4, ?r6, ?m4, ?m6, ?k4, ?k6]) ?j4"
      "\<not> succeeds w (issued s @ [?r4, ?r6, ?m4, ?m6, ?k4, ?k6, ?j4]) ?j6"
      "s5 = having_issued s [?r4, ?r6, ?m4, ?m6, ?k4, ?k6, ?j4, ?j6]"
    by (auto simp add: ApplyMarkForUserTraffic46_eq Let_def split: if_splits)
  then show ?thesis
  proof cases
    case primary
    with ok4 ok6 okm4 okm6 okk4 okk6 show ?thesis
      by (simp add: ApplyVpnSetup_add for_usernames_add_Cons Let_def rollback_one_user s4)
  next
    case secondary
    with ok4 ok6 okm4 okm6 okk4 okk6 show ?thesis
      by (simp add: ApplyVpnSetup_add for_usernames_add_Cons Let_def rollback_one_user s4)
  qed
qed

theorem ApplyVpnSetup_second_user_fails_witness:
  "ApplyRuleForUserTraffic (mock False [mark_user (mock False []) ''/sbin/iptables'' ''testuser1'' True])
     kIPv4 True (fresh False) =
     (True, having_issued (fresh False) [ip_rule (mock False []) kIPv4 True]) \<and>
   ApplyRuleForUserTraffic (mock False [mark_user (mock False []) ''/sbin/iptables'' ''testuser1'' True])
     kIPv6 True (having_issued (fresh False) [ip_rule (mock False []) kIPv4 True]) =
     (True, having_issued (fresh False)
        [ip_rule (mock False []) kIPv4 True, ip_rule (mock False []) kIPv6 True]) \<and>
   ApplyMasquerade46 (mock False [mark_user (mock False []) ''/sbin/iptables'' ''testuser1'' True])
     ''ifc0'' True
     (having_issued (fresh False)
        [ip_rule (mock False []) kIPv4 True, ip_rule (mock False []) kIPv6 True]) =
     (True, having_issued (fresh False)
        [ip_rule (mock False []) kIPv4 True, ip_rule (mock False []) kIPv6 True,
         masquerade (mock False []) ''/sbin/iptables'' ''ifc0'' True,
         masquerade (mock False []) ''/sbin/ip6tables'' ''ifc0'' True]) \<and>
   ApplyMarkForUserTraffic46 (mock False [mark_user (mock False []) ''/sbin/iptables'' ''testuser1'' True])
     ''testuser0'' True
     (having_issued (fresh False)
        [ip_rule (mock False []) kIPv4 True, ip_rule (mock False []) kIPv6 True,
         masquerade (mock False []) ''/sbin/iptables'' ''ifc0'' True,
         masquerade (mock False []) ''/sbin/ip6tables'' ''ifc0'' True]) =
     (True, having_issued (fresh False)
        [ip_rule (mock False []) kIPv4 True, ip_rule (mock False []) kIPv6 True,
         masquerade (mock False []) ''/sbin/iptables'' ''ifc0'' True,
         masquerade (mock False []) ''/sbin/ip6tables'' ''ifc0'' True,
         mark_user (mock False []) ''/sbin/iptables'' ''testuser0'' True,
         mark_user (mock False []) ''/sbin/ip6tables'' ''testuser0'' True]) \<and>
   ApplyMarkForUserTraffic46 (mock False [mark_user (mock False []) ''/sbin/iptables'' ''testuser1'' True])
     ''testuser1'' True
     (having_issued (fresh False)
        [ip_rule (mock False []) kIPv4 True, ip_rule (mock False []) kIPv6 True,
         masquerade (mock False []) ''/sbin/iptables'' ''ifc0'' True,
         masquerade (mock False []) ''/sbin/ip6tables'' ''ifc0'' True,
         mark_user (mock False []) ''/sbin/iptables'' ''testuser0'' True,
         mark_user (mock False []) ''/sbin/ip6tables'' ''testuser0'' True]) =
     (False, having_issued (fresh False)
        [ip_rule (mock False []) kIPv4 True, ip_rule (mock False []) kIPv6 True,
         masquerade (mock False []) ''/sbin/iptables'' ''ifc0'' True,
         masquerade (mock False []) ''/sbin/ip6tables'' ''ifc0'' True,
         mark_user (mock False []) ''/sbin/iptables'' ''testuser0'' True,
         mark_user (mock False []) ''/sbin/ip6tables'' ''testuser0'' True,
         mark_user (mock False []) ''/sbin/iptables'' ''testuser1'' True]) \<and>
   ApplyVpnSetup (mock False [mark_user (mock False []) ''/sbin/iptables'' ''testuser1'' True])
     [''testuser0'', ''testuser1'', ''testuser2''] ''ifc0'' True (fresh False) =
     (False, having_issued (fresh False)
        [ip_rule (mock False []) kIPv4 True, ip_rule (mock False []) kIPv6 True,
         masquerade (mock False []) ''/sbin/iptables'' ''ifc0'' True,
         masquerade (mock False []) ''/sbin/ip6tables'' ''ifc0'' True,
         mark_user (mock False []) ''/sbin/iptables'' ''testuser0'' True,
         mark_user (mock False []) ''/sbin/ip6tables'' ''testuser0'' True,
         mark_user (mock False []) ''/sbin/iptables'' ''testuser1'' True,
         ip_rule (mock False []) kIPv4 False, ip_rule (mock False []) kIPv6 False,
         masquerade (mock False []) ''/sbin/iptables'' ''ifc0'' False,
         masquerade (mock False []) ''/sbin/ip6tables'' ''ifc0'' False,
         mark_user (mock False []) ''/sbin/iptables'' ''testuser0'' False,
         mark_user (mock False []) ''/sbin/ip6tables'' ''testuser0'' False])"
proof -
  let ?w = "mock False [mark_user (mock False []) ''/sbin/iptables'' ''testuser1'' True]"
  let ?r4 = "ip_rule (mock False []) kIPv4 True" and ?r6 = "ip_rule (mock False []) kIPv6 True"
  let ?m4 = "masquerade (mock False []) ''/sbin/iptables'' ''ifc0'' True"
  let ?m6 = "masquerade (mock False []) ''/sbin/ip6tables'' ''ifc0'' True"
  let ?k4 = "mark_user (mock False []) ''/sbin/iptables'' ''testuser0'' True"
  let ?k6 = "mark_user (mock False []) ''/sbin/ip6tables'' ''testuser0'' True"
  let ?j4 = "mark_user (mock False []) ''/sbin/iptables'' ''testuser1'' True"
  let ?s0 = "fresh False"
  have step1: "ApplyRuleForUserTraffic ?w kIPv4 True ?s0 = (True, having_issued ?s0 [?r4])"
    by (simp add: ApplyRuleForUserTraffic_eq cmd_defs fresh_def IpTables_new_def)
  have step2: "ApplyRuleForUserTraffic ?w kIPv6 True (having_issued ?s0 [?r4])
      = (True, having_issued ?s0 [?r4, ?r6])"
    by (simp add: ApplyRuleForUserTraffic_eq cmd_defs fresh_def IpTables_new_def)
  have step3: "ApplyMasquerade46 ?w ''ifc0'' True (having_issued ?s0 [?r4, ?r6])
      = (True, having_issued ?s0 [?r4, ?r6, ?m4, ?m6])"
    by (simp add: ApplyMasquerade46_eq Let_def cmd_defs fresh_def IpTables_new_def)
  have step4: "ApplyMarkForUserTraffic46 ?w ''testuser0'' True (having_issued ?s0 [?r4, ?r6, ?m4, ?m6])
      = (True, having_issued ?s0 [?r4, ?r6, ?m4, ?m6, ?k4, ?k6])"
    by (simp add: ApplyMarkForUserTraffic46_eq Let_def cmd_defs fresh_def IpTables_new_def)
  have step5: "ApplyMarkForUserTraffic46 ?w ''testuser1'' True
        (having_issued ?s0 [?r4, ?r6, ?m4, ?m6, ?k4, ?k6])
      = (False, having_issued ?s0 [?r4, ?r6, ?m4, ?m6, ?k4, ?k6, ?j4])"
    by (simp add: ApplyMarkForUserTraffic46_eq Let_def cmd_defs fresh_def IpTables_new_def)
  from step1 step2 step3 step4 step5
    ApplyVpnSetup_second_user_fails [OF step1 step2 step3 step4 step5, of "[''testuser2'']"]
  show ?thesis
    by (simp add: cmd_defs)
qed

text \<open>
  At the input of the unit test, the rollback begins with the routing-policy rules and
  ends with the first user's mark rules; it is not the sequence mark rules, masquerade,
  routing-policy rules.
\<close>

theorem ApplyVpnSetup_second_user_fails_counterexample:
  "\<not> fst (ApplyVpnSetup (mock False [mark_user (mock False []) ''/sbin/iptables'' ''testuser1'' True])
       [''testuser0'', ''testuser1''] ''ifc0'' True (fresh False)) \<and>
   drop 7 (issued (snd (ApplyVpnSetup
       (mock False [mark_user (mock False []) ''/sbin/iptables'' ''testuser1'' True])
       [''testuser0'', ''testuser1''] ''ifc0'' True (fresh False)))) =
     [Process [''/bin/ip'', ''rule'', ''delete'', ''fwmark'', ''1'', ''table'', ''1''],
      Process [''/bin/ip'', ''-6'', ''rule'', ''delete'', ''fwmark'', ''1'', ''table'', ''1''],
      Minijail (Some ''nobody'') 12288
        [''/sbin/iptables'', ''-t'', ''nat'', ''-D'', ''POSTROUTING'', ''-o'', ''ifc0'',
         ''-j'', ''MASQUERADE''],
      Minijail (Some ''nobody'') 12288
        [''/sbin/ip6tables'', ''-t'', ''nat'', ''-D'', ''POSTROUTING'', ''-o'', ''ifc0'',
         ''-j'', ''MASQUERADE''],
      Minijail (Some ''nobody'') 12288
        [''/sbin/iptables'', ''-t'', ''mangle'', ''-D'', ''OUTPUT'', ''-m'', ''owner'',
         ''--uid-owner'', ''testuser0'', ''-j'', ''MARK'', ''--set-mark'', ''1''],
      Minijail (Some ''nobody'') 12288
        [''/sbin/ip6tables'', ''-t'', ''mangle'', ''-D'', ''OUTPUT'', ''-m'', ''owner'',
         ''--uid-owner'', ''testuser0'', ''-j'', ''MARK'', ''--set-mark'', ''1'']] \<and>
   drop 7 (issued (snd (ApplyVpnSetup
       (mock False [mark_user (mock False []) ''/sbin/iptables'' ''testuser1'' True])
       [''testuser0'', ''testuser1''] ''ifc0'' True (fresh False)))) \<noteq>
     [Minijail (Some ''nobody'') 12288
        [''/sbin/iptables'', ''-t'', ''mangle'', ''-D'', ''OUTPUT'', ''-m'', ''owner'',
         ''--uid-owner'', ''testuser0'', ''-j'', ''MARK'', ''--set-mark'', ''1''],
      Minijail (Some ''nobody'') 12288
        [''/sbin/ip6tables'', ''-t'', ''mangle'', ''-D'', ''OUTPUT'', ''-m'', ''owner'',
         ''--uid-owner'', ''testuser0'', ''-j'', ''MARK'', ''--set-mark'', ''1''],
      Minijail (Some ''nobody'') 12288
        [''/sbin/iptables'', ''-t'', ''nat'', ''-D'', ''POSTROUTING'', ''-o'', ''ifc0'',
         ''-j'', ''MASQUERADE''],
      Minijail (Some ''nobody'') 12288
        [''/sbin/ip6tables'', ''-t'', ''nat'', ''-D'', ''POSTROUTING'', ''-o'', ''ifc0'',
         ''-j'', ''MASQUERADE''],
      Process [''/bin/ip'', ''rule'', ''delete'', ''fwmark'', ''1'', ''table'', ''1''],
      Process [''/bin/ip'', ''-6'', ''rule'', ''delete'', ''fwmark'', ''1'', ''table'', ''1'']]"
  by (simp add: ApplyVpnSetup_add for_usernames_add_Cons rollback_one_user Let_def cmd_defs
        const_defs fresh_def IpTables_new_def)

text \<open>
  C3. A VPN add call in which the IPv4 routing-policy rule is installed and the IPv6 one
  fails returns failure, and its rollback is the removal pass over no user: it attempts
  to remove the IPv4 routing-policy rule, the IPv6 routing-policy rule and the
  masquerade rule with iptables and with ip6tables, in that order. No mark rule is
  touched.
\<close>

theorem ApplyVpnSetup_ipv6_rule_fails:
  assumes "ApplyRuleForUserTraffic w kIPv4 True s = (True, s1)"
      and "ApplyRuleForUserTraffic w kIPv6 True s1 = (False, s2)"
  shows "ApplyVpnSetup w usernames interface True s =
           (False, having_issued s2
              [ip_rule w kIPv4 False, ip_rule w kIPv6 False,
               masquerade w (kIpTablesPath w) interface False,
               masquerade w (kIp6TablesPath w) interface False]) \<and>
         issued s2 = issued s @ [ip_rule w kIPv4 True, ip_rule w kIPv6 True]"
proof -
  from assms(1) have ok4: "succeeds w (issued s) (ip_rule w kIPv4 True)"
    and s1: "s1 = having_issued s [ip_rule w kIPv4 True]"
    by (simp_all add: ApplyRuleForUserTraffic_eq)
  from assms(2) s1
  have bad6: "\<not> succeeds w (issued s @ [ip_rule w kIPv4 True]) (ip_rule w kIPv6 True)"
    and s2: "s2 = having_issued s [ip_rule w kIPv4 True, ip_rule w kIPv6 True]"
    by (simp_all add: ApplyRuleForUserTraffic_eq)
  from ok4 bad6 show ?thesis
    by (simp add: ApplyVpnSetup_add Let_def rollback_nobody s2)
qed

theorem ApplyVpnSetup_ipv6_rule_fails_witness:
  "ApplyRuleForUserTraffic (mock False [ip_rule (mock False []) kIPv6 True]) kIPv4 True (fresh False) =
     (True, having_issued (fresh False) [ip_rule (mock False []) kIPv4 True]) \<and>
   ApplyRuleForUserTraffic (mock False [ip_rule (mock False []) kIPv6 True]) kIPv6 True
     (having_issued (fresh False) [ip_rule (mock False []) kIPv4 True]) =
     (False, having_issued (fresh False)
        [ip_rule (mock False []) kIPv4 True, ip_rule (mock False []) kIPv6 True]) \<and>
   ApplyVpnSetup (mock False [ip_rule (mock False []) kIPv6 True])
     [''testuser0'', ''testuser1''] ''ifc0'' True (fresh False) =
     (False, having_issued (fresh False)
        [ip_rule (mock False []) kIPv4 True, ip_rule (mock False []) kIPv6 True,
         ip_rule (mock False []) kIPv4 False, ip_rule (mock False []) kIPv6 False,
         masquerade (mock False []) ''/sbin/iptables'' ''ifc0'' False,
         masquerade (mock False []) ''/sbin/ip6tables'' ''ifc0'' False])"
proof -
  let ?w = "mock False [ip_rule (mock False []) kIPv6 True]"
  let ?s1 = "having_issued (fresh False) [ip_rule (mock False []) kIPv4 True]"
  let ?s2 = "having_issued (fresh False)
      [ip_rule (mock False []) kIPv4 True, ip_rule (mock False []) kIPv6 True]"
  have step1: "ApplyRuleForUserTraffic ?w kIPv4 True (fresh False) = (True, ?s1)"
    by (simp add: ApplyRuleForUserTraffic_eq cmd_defs fresh_def IpTables_new_def)
  have step2: "ApplyRuleForUserTraffic ?w kIPv6 True ?s1 = (False, ?s2)"
    by (simp add: ApplyRuleForUserTraffic_eq cmd_defs fresh_def IpTables_new_def)
  from step1 step2
    ApplyVpnSetup_ipv6_rule_fails [OF step1 step2, of "[''testuser0'', ''testuser1'']" "''ifc0''"]
  show ?thesis
    by (simp add: cmd_defs)
qed

text \<open>
  At a concrete input, the rollback after the failed IPv6 rule issues the removal of the
  IPv6 routing-policy rule and of the masquerade rule, not of step 1 only.
\<close>

theorem ApplyVpnSetup_ipv6_rule_fails_counterexample:
  "\<not> fst (ApplyVpnSetup (mock False [ip_rule (mock False []) kIPv6 True])
       [''testuser0'', ''testuser1''] ''ifc0'' True (fresh False)) \<and>
   issued (snd (ApplyVpnSetup (mock False [ip_rule (mock False []) kIPv6 True])
       [''testuser0'', ''testuser1''] ''ifc0'' True (fresh False))) =
     [Process [''/bin/ip'', ''rule'', ''add'', ''fwmark'', ''1'', ''table'', ''1''],
      Process [''/bin/ip'', ''-6'', ''rule'', ''add'', ''fwmark'', ''1'', ''table'', ''1''],
      Process [''/bin/ip'', ''rule'', ''delete'', ''fwmark'', ''1'', ''table'', ''1''],
      Process [''/bin/ip'', ''-6'', ''rule'', ''delete'', ''fwmark'', ''1'', ''table'', ''1''],
      Minijail (Some ''nobody'') 12288
        [''/sbin/iptables'', ''-t'', ''nat'', ''-D'', ''POSTROUTING'', ''-o'', ''ifc0'',
         ''-j'', ''MASQUERADE''],
      Minijail (Some ''nobody'') 12288
        [''/sbin/ip6tables'', ''-t'', ''nat'', ''-D'', ''POSTROUTING'', ''-o'', ''ifc0'',
         ''-j'', ''MASQUERADE'']] \<and>
   Process [''/bin/ip'', ''-6'', ''rule'', ''delete'', ''fwmark'', ''1'', ''table'', ''1'']
     \<in> set (issued (snd (ApplyVpnSetup (mock False [ip_rule (mock False []) kIPv6 True])
       [''testuser0'', ''testuser1''] ''ifc0'' True (fresh False)))) \<and>
   Minijail (Some ''nobody'') 12288
        [''/sbin/iptables'', ''-t'', ''nat'', ''-D'', ''POSTROUTING'', ''-o'', ''ifc0'',
         ''-j'', ''MASQUERADE'']
     \<in> set (issued (snd (ApplyVpnSetup (mock False [ip_rule (mock False []) kIPv6 True])
       [''testuser0'', ''testuser1''] ''ifc0'' True (fresh False))))"
  by (simp add: ApplyVpnSetup_add rollback_nobody Let_def cmd_defs const_defs fresh_def
        IpTables_new_def)

end
